theory Spec2Isabelle
  imports Main "HOL-Library.Sublist"
begin

section \<open>JavaScript values\<close>

text \<open>
  The cache methods of the provider are generic in the cached value, and two of their
  branches test the value with \<^verbatim>\<open>if (val)\<close>. The values are therefore modelled with
  their truthiness: \<open>undefined\<close>, \<open>null\<close>, \<open>false\<close>, \<open>0\<close> and the empty string are
  falsy, every object and array is truthy. Numbers are integers here (no \<open>NaN\<close>).
\<close>

datatype jsval =
    JUndefined
  | JNull
  | JBool bool
  | JNum int
  | JStr string
  | JObj "(string \<times> jsval) list"
  | JArr "jsval list"

fun truthy :: "jsval \<Rightarrow> bool" where
  "truthy JUndefined = False"
| "truthy JNull = False"
| "truthy (JBool b) = b"
| "truthy (JNum n) = (n \<noteq> 0)"
| "truthy (JStr s) = (s \<noteq> [])"
| "truthy (JObj fs) = True"
| "truthy (JArr xs) = True"

datatype error = Error string

text \<open>\<^verbatim>\<open>Array.prototype.join\<close> on strings.\<close>

fun join_with :: "string \<Rightarrow> string list \<Rightarrow> string" where
  "join_with sep [] = []"
| "join_with sep [x] = x"
| "join_with sep (x # y # ys) = x @ sep @ join_with sep (y # ys)"

section \<open>Paths\<close>

text \<open>
  \<^verbatim>\<open>path.join\<close> of Node.js on a POSIX system: the non-empty arguments are joined with
  \<open>/\<close> and the result is normalised. Normalisation drops empty and \<open>.\<close> segments and
  resolves a \<open>..\<close> segment against the segment before it; a relative path keeps the
  \<open>..\<close> segments that climb above its start. A trailing separator is kept.
\<close>

fun split_on :: "char \<Rightarrow> string \<Rightarrow> string list" where
  "split_on c [] = [[]]"
| "split_on c (x # xs) =
     (if x = c then [] # split_on c xs
      else (case split_on c xs of
              [] \<Rightarrow> [[x]]
            | y # ys \<Rightarrow> (x # y) # ys))"

fun normalizeString :: "bool \<Rightarrow> string list \<Rightarrow> string list \<Rightarrow> string list" where
  "normalizeString allowAboveRoot res [] = res"
| "normalizeString allowAboveRoot res (seg # segs) =
     (if seg = [] \<or> seg = ''.'' then normalizeString allowAboveRoot res segs
      else if seg = ''..'' then
        (if res \<noteq> [] \<and> last res \<noteq> ''..''
           then normalizeString allowAboveRoot (butlast res) segs
         else if allowAboveRoot
           then normalizeString allowAboveRoot (res @ [''..'']) segs
         else normalizeString allowAboveRoot res segs)
      else normalizeString allowAboveRoot (res @ [seg]) segs)"

definition path_normalize :: "string \<Rightarrow> string" where
  "path_normalize p =
     (if p = [] then ''.''
      else
        let isAbsolute = (hd p = CHR ''/'');
            trailingSeparator = (last p = CHR ''/'');
            segs = normalizeString (\<not> isAbsolute) [] (split_on CHR ''/'' p)
        in if segs = [] then (if isAbsolute then ''/'' else if trailingSeparator then ''./'' else ''.'')
           else
             let body = join_with ''/'' segs @ (if trailingSeparator then ''/'' else [])
             in if isAbsolute then CHR ''/'' # body else body)"

definition path_join :: "string \<Rightarrow> string \<Rightarrow> string" where
  "path_join a b =
     (let parts = filter (\<lambda>x. x \<noteq> []) [a, b]
      in if parts = [] then ''.'' else path_normalize (join_with ''/'' parts))"

section \<open>The world outside the provider\<close>

text \<open>
  Everything a provider touches outside its own fields: the host's cache manager (the
  file-backed tier), the clock read by \<^verbatim>\<open>Date.now()\<close>, the number of HTTP requests
  issued so far and the trace of the observable operations, in the order they happen.
\<close>

datatype event =
    MemGet string
  | MemSet string
  | FsGet string
  | FsSet string
  | HttpFetch string
  | Wait int

record world =
  cacheManager :: "string \<rightharpoonup> (jsval \<times> int)"
  clock :: int
  requests :: nat
  trace :: "event list"

definition emit :: "event \<Rightarrow> world \<Rightarrow> world" where
  "emit ev w = w\<lparr>trace := trace w @ [ev]\<rparr>"

text \<open>
  Modelled from the spec: the host's cache manager (\<^verbatim>\<open>ICacheManager\<close>, imported from the
  host runtime; the provider only calls its \<open>get\<close> and \<open>set\<close>). It is a store of entries that
  "carry an explicit expiry timestamp": \<open>set\<close> stores the value with the timestamp it
  is given, \<open>get\<close> returns the stored value while the timestamp lies in the future and
  the "not found" result otherwise, which \<^verbatim>\<open>readFsCache\<close> declares as \<open>null\<close>.
\<close>

definition cacheManager_get :: "string \<Rightarrow> world \<Rightarrow> jsval \<times> world" where
  "cacheManager_get p w =
     (let w' = emit (FsGet p) w
      in case cacheManager w p of
           None \<Rightarrow> (JNull, w')
         | Some (v, expires) \<Rightarrow> (if clock w < expires then v else JNull, w'))"

definition cacheManager_set :: "string \<Rightarrow> jsval \<Rightarrow> int \<Rightarrow> world \<Rightarrow> world" where
  "cacheManager_set p v expires w =
     emit (FsSet p) (w\<lparr>cacheManager := (cacheManager w)(p \<mapsto> (v, expires))\<rparr>)"

section \<open>BaseCachedProvider\<close>

text \<open>
  The in-memory tier is the instance's private \<^verbatim>\<open>NodeCache\<close>, created with the option
  \<^verbatim>\<open>stdTTL\<close> (in seconds). As in node-cache, an entry is stored with the time it lives
  until (\<open>0\<close> for "for ever", \<open>-1\<close> for a negative TTL), and \<open>get\<close> answers
  \<open>undefined\<close> for a missing or an expired key.
\<close>

record BaseCachedProvider =
  cache :: "string \<rightharpoonup> (jsval \<times> int)"
  stdTTL :: int
  cacheKey :: string

definition new_BaseCachedProvider :: "string \<Rightarrow> int option \<Rightarrow> BaseCachedProvider" where
  "new_BaseCachedProvider ck ttl =
     \<lparr> cache = Map.empty,
       stdTTL = (case ttl of None \<Rightarrow> 300 | Some t \<Rightarrow> if t \<noteq> 0 then t else 300),
       cacheKey = ck \<rparr>"

definition NodeCache_get ::
  "string \<Rightarrow> 'a BaseCachedProvider_scheme \<Rightarrow> world \<Rightarrow> jsval \<times> world" where
  "NodeCache_get key this w =
     (let w' = emit (MemGet key) w
      in case cache this key of
           None \<Rightarrow> (JUndefined, w')
         | Some (v, t) \<Rightarrow> (if t \<noteq> 0 \<and> t < clock w then JUndefined else v, w'))"

definition NodeCache_set ::
  "string \<Rightarrow> jsval \<Rightarrow> 'a BaseCachedProvider_scheme \<Rightarrow> world
     \<Rightarrow> 'a BaseCachedProvider_scheme \<times> world" where
  "NodeCache_set key v this w =
     (let ttl = stdTTL this;
          livetime = (if ttl = 0 then 0 else if ttl < 0 then - 1 else clock w + ttl * 1000)
      in (this\<lparr>cache := (cache this)(key \<mapsto> (v, livetime))\<rparr>, emit (MemSet key) w))"

definition readFsCache ::
  "'a BaseCachedProvider_scheme \<Rightarrow> string \<Rightarrow> world \<Rightarrow> jsval \<times> world" where
  "readFsCache this key w = cacheManager_get (path_join (cacheKey this) key) w"

definition writeFsCache ::
  "'a BaseCachedProvider_scheme \<Rightarrow> string \<Rightarrow> jsval \<Rightarrow> world \<Rightarrow> world" where
  "writeFsCache this key data w =
     cacheManager_set (path_join (cacheKey this) key) data (clock w + 5 * 60 * 1000) w"

definition readFromCache ::
  "'a BaseCachedProvider_scheme \<Rightarrow> string \<Rightarrow> world
     \<Rightarrow> jsval \<times> 'a BaseCachedProvider_scheme \<times> world" where
  "readFromCache this key w =
     (case NodeCache_get key this w of (val, w1) \<Rightarrow>
        if truthy val then (val, this, w1)
        else (case readFsCache this key w1 of (fsVal, w2) \<Rightarrow>
                if truthy fsVal
                  then (case NodeCache_set key fsVal this w2 of (this', w3) \<Rightarrow> (fsVal, this', w3))
                else (fsVal, this, w2)))"

definition writeToCache ::
  "'a BaseCachedProvider_scheme \<Rightarrow> string \<Rightarrow> jsval \<Rightarrow> world
     \<Rightarrow> 'a BaseCachedProvider_scheme \<times> world" where
  "writeToCache this key val w =
     (case NodeCache_set key val this w of (this', w1) \<Rightarrow> (this', writeFsCache this' key val w1))"

section \<open>BirdeyeProvider\<close>

definition DEFAULT_MAX_RETRIES :: int where
  "DEFAULT_MAX_RETRIES = 3"

definition DEFAULT_SUPPORTED_SYMBOLS :: "(string \<times> string) list" where
  "DEFAULT_SUPPORTED_SYMBOLS =
     [(''SOL'', ''So11111111111111111111111111111111111111112''),
      (''BTC'', ''qfnqNqs3nCAHjnyCgLRDbBtq4p2MtHZxw8YjSyYhPoL''),
      (''ETH'', ''7vfCXTUXx5WJV5JADk17DUJ4ksgau7utNKj4b963voxs''),
      (''Example'', ''2weMjPLLybRMMva1fM3U31goWWrCpF59CHWNhnCJ9Vyh'')]"

definition API_BASE_URL :: string where
  "API_BASE_URL = ''https://public-api.birdeye.so''"

definition ENDPOINT_MAP :: "(string \<times> string) list" where
  "ENDPOINT_MAP =
     [(''price'', ''/defi/price?address=''),
      (''security'', ''/defi/token_security?address=''),
      (''volume'', ''/defi/v3/token/trade-data/single?address=''),
      (''portfolio'', ''/v1/wallet/token_list?wallet='')]"

definition RETRY_DELAY_MS :: int where
  "RETRY_DELAY_MS = 2000"

definition waitFor :: "int \<Rightarrow> world \<Rightarrow> world" where
  "waitFor ms w = emit (Wait ms) (w\<lparr>clock := clock w + ms\<rparr>)"

record BirdeyeProvider = BaseCachedProvider +
  symbolMap :: "(string \<times> string) list"
  maxRetries :: int

definition new_BirdeyeProvider ::
  "(string \<times> string) list option \<Rightarrow> int option \<Rightarrow> BirdeyeProvider" where
  "new_BirdeyeProvider sm mr =
     BaseCachedProvider.extend (new_BaseCachedProvider ''birdeye/data'' None)
       (BirdeyeProvider.fields
          (case sm of None \<Rightarrow> DEFAULT_SUPPORTED_SYMBOLS | Some m \<Rightarrow> m)
          (case mr of None \<Rightarrow> DEFAULT_MAX_RETRIES
                    | Some n \<Rightarrow> if n \<noteq> 0 then n else DEFAULT_MAX_RETRIES))"

definition getTokenAddress :: "BirdeyeProvider \<Rightarrow> string \<Rightarrow> error + string" where
  "getTokenAddress this symbol =
     (case map_of (symbolMap this) symbol of
        None \<Rightarrow> Inl (Error (''Unsupported symbol '' @ symbol @ '' in Birdeye provider''))
      | Some addr \<Rightarrow>
          if addr = [] then Inl (Error (''Unsupported symbol '' @ symbol @ '' in Birdeye provider''))
          else Inr addr)"

definition getUrlByType :: "string \<Rightarrow> string \<Rightarrow> error + string" where
  "getUrlByType type address =
     (case map_of ENDPOINT_MAP type of
        None \<Rightarrow> Inl (Error (''Unsupported symbol '' @ type @ '' in Birdeye provider''))
      | Some path \<Rightarrow> Inr (API_BASE_URL @ path @ address))"

text \<open>Decimal rendering of a number, as a template literal does it.\<close>

fun show_nat :: "nat \<Rightarrow> string" where
  "show_nat n =
     (if n < 10 then [char_of (48 + n)]
      else show_nat (n div 10) @ [char_of (48 + n mod 10)])"

declare show_nat.simps [simp del]

definition show_int :: "int \<Rightarrow> string" where
  "show_int i = (if i < 0 then CHR ''-'' # show_nat (nat (- i)) else show_nat (nat i))"

text \<open>
  The network: the answer to the \<open>n\<close>-th request issued (counted from 0) to a URL. The
  promise of \<^verbatim>\<open>fetch\<close> is either rejected, or resolves to a response with its \<^verbatim>\<open>ok\<close>
  flag, its status, and what reading the body as text and as JSON gives (each may throw).
  The request headers do not influence any decision of the provider and are left out.
\<close>

datatype response =
    Rejected error
  | Response bool nat "error + string" "error + jsval"

type_synonym network = "string \<Rightarrow> nat \<Rightarrow> response"

definition fetch :: "network \<Rightarrow> string \<Rightarrow> world \<Rightarrow> response \<times> world" where
  "fetch net url w = (net url (requests w), emit (HttpFetch url) (w\<lparr>requests := Suc (requests w)\<rparr>))"

text \<open>What the body of the \<^verbatim>\<open>try\<close> block makes of a response: the data, or the error thrown.\<close>

fun outcome :: "response \<Rightarrow> error + jsval" where
  "outcome (Rejected e) = Inl e"
| "outcome (Response ok status txt js) =
     (if \<not> ok then
        (case txt of
           Inl e \<Rightarrow> Inl e
         | Inr errorText \<Rightarrow>
             Inl (Error (''HTTP error! status: '' @ show_nat status @ '', message: '' @ errorText)))
      else js)"

definition try_fetch :: "network \<Rightarrow> string \<Rightarrow> world \<Rightarrow> (error + jsval) \<times> world" where
  "try_fetch net url w = (case fetch net url w of (resp, w') \<Rightarrow> (outcome resp, w'))"

text \<open>
  The \<^verbatim>\<open>while\<close> loop of \<^verbatim>\<open>fetchWithRetry\<close>, with the counter \<open>attempts\<close> as an argument.
  Falling out of the loop returns \<open>undefined\<close>.
\<close>

function fetchWithRetry_loop ::
  "int \<Rightarrow> network \<Rightarrow> string \<Rightarrow> int \<Rightarrow> world \<Rightarrow> (error + jsval) \<times> world" where
  "fetchWithRetry_loop maxR net url attempts w =
     (if attempts < maxR then
        (case try_fetch net url w of
           (Inr data, w1) \<Rightarrow> (Inr data, w1)
         | (Inl err, w1) \<Rightarrow>
             if attempts + 1 = maxR then (Inl err, w1)
             else fetchWithRetry_loop maxR net url (attempts + 1) (waitFor RETRY_DELAY_MS w1))
      else (Inr JUndefined, w))"
  by pat_completeness auto
termination
  by (relation "measure (\<lambda>(maxR, net, url, attempts, w). nat (maxR - attempts))") auto

declare fetchWithRetry_loop.simps [simp del]

definition fetchWithRetry ::
  "BirdeyeProvider \<Rightarrow> network \<Rightarrow> string \<Rightarrow> world \<Rightarrow> (error + jsval) \<times> world" where
  "fetchWithRetry this net url w = fetchWithRetry_loop (maxRetries this) net url 0 w"

definition fetchPriceByAddress ::
  "BirdeyeProvider \<Rightarrow> network \<Rightarrow> string \<Rightarrow> world \<Rightarrow> (error + jsval) \<times> world" where
  "fetchPriceByAddress this net address w =
     (case getUrlByType ''price'' address of
        Inl e \<Rightarrow> (Inl e, w)
      | Inr url \<Rightarrow> fetchWithRetry this net url w)"

definition fetchTokenSecurityByAddress ::
  "BirdeyeProvider \<Rightarrow> network \<Rightarrow> string \<Rightarrow> world \<Rightarrow> (error + jsval) \<times> world" where
  "fetchTokenSecurityByAddress this net address w =
     (case getUrlByType ''security'' address of
        Inl e \<Rightarrow> (Inl e, w)
      | Inr url \<Rightarrow> fetchWithRetry this net url w)"

definition fetchTokenTradeDataByAddress ::
  "BirdeyeProvider \<Rightarrow> network \<Rightarrow> string \<Rightarrow> world \<Rightarrow> (error + jsval) \<times> world" where
  "fetchTokenTradeDataByAddress this net address w =
     (case getUrlByType ''volume'' address of
        Inl e \<Rightarrow> (Inl e, w)
      | Inr url \<Rightarrow> fetchWithRetry this net url w)"

definition fetchWalletPortfolio ::
  "BirdeyeProvider \<Rightarrow> network \<Rightarrow> string \<Rightarrow> world \<Rightarrow> (error + jsval) \<times> world" where
  "fetchWalletPortfolio this net address w =
     (case getUrlByType ''portfolio'' address of
        Inl e \<Rightarrow> (Inl e, w)
      | Inr url \<Rightarrow> fetchWithRetry this net url w)"

definition fetchPriceBySymbol ::
  "BirdeyeProvider \<Rightarrow> network \<Rightarrow> string \<Rightarrow> world \<Rightarrow> (error + jsval) \<times> world" where
  "fetchPriceBySymbol this net symbol w =
     (case getTokenAddress this symbol of
        Inl e \<Rightarrow> (Inl e, w)
      | Inr address \<Rightarrow> fetchPriceByAddress this net address w)"

definition fetchTokenSecurityBySymbol ::
  "BirdeyeProvider \<Rightarrow> network \<Rightarrow> string \<Rightarrow> world \<Rightarrow> (error + jsval) \<times> world" where
  "fetchTokenSecurityBySymbol this net symbol w =
     (case getTokenAddress this symbol of
        Inl e \<Rightarrow> (Inl e, w)
      | Inr address \<Rightarrow> fetchTokenSecurityByAddress this net address w)"

definition fetchTokenTradeDataBySymbol ::
  "BirdeyeProvider \<Rightarrow> network \<Rightarrow> string \<Rightarrow> world \<Rightarrow> (error + jsval) \<times> world" where
  "fetchTokenTradeDataBySymbol this net symbol w =
     (case getTokenAddress this symbol of
        Inl e \<Rightarrow> (Inl e, w)
      | Inr address \<Rightarrow> fetchTokenTradeDataByAddress this net address w)"

section \<open>The exported provider\<close>

text \<open>How a template literal renders a value (\<^verbatim>\<open>String(v)\<close>).\<close>

fun js_toString :: "jsval \<Rightarrow> string" where
  "js_toString JUndefined = ''undefined''"
| "js_toString JNull = ''null''"
| "js_toString (JBool b) = (if b then ''true'' else ''false'')"
| "js_toString (JNum n) = show_int n"
| "js_toString (JStr s) = s"
| "js_toString (JObj fs) = ''[object Object]''"
| "js_toString (JArr xs) =
     join_with '','' (map (\<lambda>x. if x = JNull \<or> x = JUndefined then [] else js_toString x) xs)"

text \<open>
  The part of the host runtime the provider uses: \<^verbatim>\<open>getSetting\<close>, which answers a string
  or nothing, and which, as any call into the host, may throw.
\<close>

record IAgentRuntime =
  getSetting :: "string \<Rightarrow> error + string option"

text \<open>The body of the \<^verbatim>\<open>try\<close> block of \<^verbatim>\<open>birdeyeProvider.get\<close>; \<open>Inl\<close> is a throw.\<close>

definition get_try :: "IAgentRuntime \<Rightarrow> network \<Rightarrow> world \<Rightarrow> (error + string) \<times> world" where
  "get_try runtime net w =
     (let provider = new_BirdeyeProvider None None
      in case getSetting runtime ''BIRDEYE_WALLET_ADDR'' of
           Inl e \<Rightarrow> (Inl e, w)
         | Inr None \<Rightarrow> (Inr ''Birdeye provider initiated with no wallet found'', w)
         | Inr (Some walletAddr) \<Rightarrow>
             if walletAddr = [] then (Inr ''Birdeye provider initiated with no wallet found'', w)
             else (case fetchWalletPortfolio provider net walletAddr w of
                     (Inl e, w') \<Rightarrow> (Inl e, w')
                   | (Inr portfolio, w') \<Rightarrow>
                       (Inr (''Birdeye wallet addr: '' @ walletAddr @ '', portfolio: ''
                              @ js_toString portfolio), w')))"

text \<open>\<^verbatim>\<open>birdeyeProvider.get\<close>: the \<^verbatim>\<open>try\<close> block and its \<^verbatim>\<open>catch\<close>. \<open>Inl\<close> would be a rejected promise.\<close>

definition birdeyeProvider_get ::
  "IAgentRuntime \<Rightarrow> network \<Rightarrow> world \<Rightarrow> (error + string) \<times> world" where
  "birdeyeProvider_get runtime net w =
     (case get_try runtime net w of
        (Inl e, w') \<Rightarrow> (Inr ''Unable to fetch token information. Please try again later.'', w')
      | (Inr s, w') \<Rightarrow> (Inr s, w'))"

section \<open>The GOAT plugin\<close>

definition REQUIRED_SETTINGS :: "(string \<times> string) list" where
  "REQUIRED_SETTINGS =
     [(''WALLET_PUBLIC_KEY'', ''Solana wallet public key''),
      (''DEXSCREENER_WATCHLIST_ID'', ''DexScreener watchlist ID''),
      (''COINGECKO_API_KEY'', ''CoinGecko API key'')]"

text \<open>\<^verbatim>\<open>!getSetting(key)\<close> is false exactly for a non-empty string.\<close>

fun is_set :: "string option \<Rightarrow> bool" where
  "is_set None = False"
| "is_set (Some v) = (v \<noteq> [])"

text \<open>The validation loop over the entries of \<^verbatim>\<open>REQUIRED_SETTINGS\<close>, pushing to \<open>missingSettings\<close>.\<close>

fun validate_loop ::
  "(string \<Rightarrow> string option) \<Rightarrow> (string \<times> string) list \<Rightarrow> string list \<Rightarrow> string list" where
  "validate_loop gs [] missingSettings = missingSettings"
| "validate_loop gs ((key, description) # entries) missingSettings =
     validate_loop gs entries
       (if \<not> is_set (gs key) then missingSettings @ [key @ '' ('' @ description @ '')'']
        else missingSettings)"

text \<open>
  The vendor calls the plugin makes after the validation, as parameters: constructing a
  \<^verbatim>\<open>Connection\<close> and a \<^verbatim>\<open>PublicKey\<close> (which throw on a malformed endpoint or key),
  starting the Twitter client, building
  the on-chain actions, and the components of the Solana plugin that are merged in.
  Each call is recorded in the trace when it is made.
\<close>

record goat_env =
  Connection :: "string \<Rightarrow> error + unit"
  PublicKey :: "string \<Rightarrow> error + string"
  TwitterClientInterface_start :: "error + unit"
  getOnChainActions :: "error + string list"
  solana_evaluators :: "string list"
  solana_providers :: "string list"
  solana_actions :: "string list"

datatype goat_event =
    LogError string
  | NewConnection string
  | NewPublicKey string
  | TwitterStart
  | OnChainActions

record Plugin =
  plugin_name :: string
  plugin_description :: string
  evaluators :: "string list"
  providers :: "string list"
  actions :: "string list"
  services :: "string list"

fun message :: "error \<Rightarrow> string" where
  "message (Error m) = m"

text \<open>The first \<^verbatim>\<open>try\<close> block: the connection and the wallet adapter.\<close>

definition init_solana ::
  "goat_env \<Rightarrow> (string \<Rightarrow> string option) \<Rightarrow> IAgentRuntime option
     \<Rightarrow> (error + string) \<times> goat_event list" where
  "init_solana env gs runtime =
     (case (case runtime of None \<Rightarrow> Inr None | Some rt \<Rightarrow> getSetting rt ''RPC_URL'') of
        Inl e \<Rightarrow> (Inl e, [])
      | Inr rpc \<Rightarrow>
          let url = (if is_set rpc then the rpc else ''https://api.mainnet-beta.solana.com'');
              key = (if is_set (gs ''WALLET_PUBLIC_KEY'') then the (gs ''WALLET_PUBLIC_KEY'') else [])
          in (case Connection env url of
                Inl e \<Rightarrow> (Inl e, [NewConnection url])
              | Inr connection \<Rightarrow> (PublicKey env key, [NewConnection url, NewPublicKey key])))"

text \<open>
  The second \<^verbatim>\<open>try\<close> block: the schema wants a non-empty user name, and the client is
  started when Twitter is enabled and a runtime is given. Every throw is caught and logged.
  The result tells whether a Twitter service was created.
\<close>

definition init_twitter ::
  "goat_env \<Rightarrow> (string \<Rightarrow> string option) \<Rightarrow> IAgentRuntime option \<Rightarrow> bool \<times> goat_event list" where
  "init_twitter env gs runtime =
     (if \<not> is_set (gs ''TWITTER_USERNAME'')
        then (False, [LogError ''Failed to initialize Twitter service:''])
      else if gs ''TWITTER_ENABLED'' = Some ''true'' \<and> runtime \<noteq> None then
        (case TwitterClientInterface_start env of
           Inl e \<Rightarrow> (False, [TwitterStart, LogError ''Failed to initialize Twitter service:''])
         | Inr u \<Rightarrow> (True, [TwitterStart]))
      else (False, []))"

definition createGoatPlugin ::
  "goat_env \<Rightarrow> (string \<Rightarrow> string option) \<Rightarrow> IAgentRuntime option
     \<Rightarrow> (error + Plugin) \<times> goat_event list" where
  "createGoatPlugin env gs runtime =
     (let missingSettings = validate_loop gs REQUIRED_SETTINGS []
      in if length missingSettings > 0 then
           let errorMsg = ''Missing required settings: '' @ join_with '', '' missingSettings
           in (Inl (Error errorMsg), [LogError errorMsg])
         else
           (case init_solana env gs runtime of
              (Inl e, tr1) \<Rightarrow>
                (Inl (Error (''Solana initialization failed: '' @ message e)),
                 tr1 @ [LogError ''Failed to initialize Solana components:''])
            | (Inr walletProvider, tr1) \<Rightarrow>
                (case init_twitter env gs runtime of (twitterService, tr2) \<Rightarrow>
                   (case getOnChainActions env of
                      Inl e \<Rightarrow>
                        (Inl (Error (''Plugin initialization failed: '' @ message e)),
                         tr1 @ tr2 @ [OnChainActions, LogError ''Failed to initialize plugin components:''])
                    | Inr customActions \<Rightarrow>
                        (Inr \<lparr> plugin_name = ''[GOAT] Onchain Actions with Solana Integration'',
                               plugin_description = ''Autonomous trading integration'',
                               evaluators = ''trustEvaluator'' # solana_evaluators env,
                               providers = walletProvider # ''trustScoreProvider'' # solana_providers env,
                               actions = customActions @ solana_actions env,
                               services = [] \<rparr>,
                         tr1 @ tr2 @ [OnChainActions])))))"

section \<open>The XMTP bootstrap\<close>

datatype xmtp_event =
    ConsoleLog string
  | Send string

text \<open>The handler \<^verbatim>\<open>onMessage\<close> of \<^verbatim>\<open>startXmtpClient\<close>: what it logs and what it sends through the client.\<close>

definition onMessage :: "string \<Rightarrow> string \<Rightarrow> xmtp_event list" where
  "onMessage msg user =
     (let response = ''Your AI response here''
      in [ConsoleLog (''Decoded message: '' @ msg @ '' by '' @ user), Send response])"

section \<open>The Avalanche swap action\<close>

text \<open>
  Property access \<^verbatim>\<open>v.k\<close>: a \<^verbatim>\<open>TypeError\<close> on \<open>null\<close> and \<open>undefined\<close>, the field of an
  object, \<open>undefined\<close> where there is none.
\<close>

fun get_field :: "jsval \<Rightarrow> string \<Rightarrow> error + jsval" where
  "get_field JUndefined k = Inl (Error ''TypeError'')"
| "get_field JNull k = Inl (Error ''TypeError'')"
| "get_field (JObj fs) k = Inr (case map_of fs k of None \<Rightarrow> JUndefined | Some v \<Rightarrow> v)"
| "get_field v k = Inr JUndefined"

definition field :: "jsval \<Rightarrow> string \<Rightarrow> jsval" where
  "field v k = (case get_field v k of Inl e \<Rightarrow> JUndefined | Inr x \<Rightarrow> x)"

fun is_string :: "jsval \<Rightarrow> bool" where
  "is_string (JStr s) = True"
| "is_string v = False"

fun is_number :: "jsval \<Rightarrow> bool" where
  "is_number (JNum n) = True"
| "is_number v = False"

text \<open>\<^verbatim>\<open>isSwapContent\<close>; the first property access throws when the content is \<open>null\<close>.\<close>

definition isSwapContent :: "jsval \<Rightarrow> error + bool" where
  "isSwapContent content =
     (case get_field content ''fromTokenAddress'' of
        Inl e \<Rightarrow> Inl e
      | Inr fromTokenAddress \<Rightarrow>
          Inr (is_string fromTokenAddress \<and>
               is_string (field content ''toTokenAddress'') \<and>
               (is_string (field content ''recipient'') \<or> \<not> truthy (field content ''recipient'')) \<and>
               (is_string (field content ''amount'') \<or> is_number (field content ''amount''))))"

text \<open>
  The calls into the host runtime and into the plugin's chain functions (\<^verbatim>\<open>approve\<close>,
  \<^verbatim>\<open>getQuote\<close>, \<^verbatim>\<open>swap\<close>, \<^verbatim>\<open>getTxReceipt\<close>, imported from the package index), as
  parameters; each may throw. \<^verbatim>\<open>composeContext\<close> is applied to the constant template
  of the action. The trace records each call when it is made, and each call of the
  optional callback with its text.
\<close>

record swap_env =
  composeState :: "jsval \<Rightarrow> error + jsval"
  updateRecentMessageState :: "jsval \<Rightarrow> error + jsval"
  composeContext :: "jsval \<Rightarrow> string"
  generateObject :: "string \<Rightarrow> error + jsval"
  getQuote :: "jsval \<Rightarrow> jsval \<Rightarrow> jsval \<Rightarrow> error + jsval"
  approve :: "jsval \<Rightarrow> string \<Rightarrow> jsval \<Rightarrow> error + jsval"
  getTxReceipt :: "jsval \<Rightarrow> error + jsval"
  swap :: "jsval \<Rightarrow> error + jsval"

datatype swap_event =
    ComposeState
  | UpdateRecentMessageState
  | GenerateObject
  | GetQuote jsval jsval jsval
  | Approve jsval string jsval
  | GetTxReceipt jsval
  | Swap jsval
  | Callback string

definition callback :: "bool \<Rightarrow> string \<Rightarrow> swap_event list" where
  "callback has txt = (if has then [Callback txt] else [])"

text \<open>The end of the handler, reached by every path that does not return earlier.\<close>

definition something_went_wrong ::
  "bool \<Rightarrow> swap_event list \<Rightarrow> (error + bool) \<times> swap_event list" where
  "something_went_wrong has tr = (Inr True, tr @ callback has ''something went wrong'')"

definition NATIVE :: string where
  "NATIVE = ''0x0000000000000000000000000000000000000000''"

definition yakRouterAddress :: string where
  "yakRouterAddress = ''0xC4729E56b831d74bBc18797e0e17A295fA77488c''"

text \<open>The last \<^verbatim>\<open>else\<close> branch of the handler: neither token is the native one.\<close>

definition swap_tokens ::
  "swap_env \<Rightarrow> bool \<Rightarrow> jsval \<Rightarrow> jsval \<Rightarrow> jsval \<Rightarrow> swap_event list
     \<Rightarrow> (error + bool) \<times> swap_event list" where
  "swap_tokens env has fromTokenAddress amount quote tr =
     (let tr2 = tr @ [Approve fromTokenAddress yakRouterAddress amount]
      in case approve env fromTokenAddress yakRouterAddress amount of
           Inl e \<Rightarrow> (Inl e, tr2)
         | Inr tx \<Rightarrow>
             let tr3 = tr2 @ callback has ''approving token...''
             in if truthy tx then
                  (let tr4 = tr3 @ [GetTxReceipt tx]
                   in case getTxReceipt env tx of
                        Inl e \<Rightarrow> (Inl e, tr4)
                      | Inr receipt \<Rightarrow>
                          (case get_field receipt ''status'' of
                             Inl e \<Rightarrow> (Inl e, tr4)
                           | Inr status \<Rightarrow>
                               if status = JStr ''success'' then
                                 (let tr5 = tr4 @ callback has ''token approved, swapping...'' @ [Swap quote]
                                  in case swap env quote of
                                       Inl e \<Rightarrow> (Inl e, tr5)
                                     | Inr swapTx \<Rightarrow>
                                         if truthy swapTx then
                                           (let tr6 = tr5 @ [GetTxReceipt swapTx]
                                            in case getTxReceipt env swapTx of
                                                 Inl e \<Rightarrow> (Inl e, tr6)
                                               | Inr receipt2 \<Rightarrow>
                                                   (case get_field receipt2 ''status'' of
                                                      Inl e \<Rightarrow> (Inl e, tr6)
                                                    | Inr status2 \<Rightarrow>
                                                        if status2 = JStr ''success''
                                                          then (Inr True, tr6 @ callback has ''swap successful'')
                                                        else (Inr True, tr6 @ callback has ''swap failed'')))
                                         else something_went_wrong has tr5)
                               else (Inr True, tr4 @ callback has ''approve failed'')))
                else something_went_wrong has tr3)"

text \<open>
  The \<^verbatim>\<open>SWAP_TOKEN\<close> handler. \<open>has\<close> tells whether a callback was passed. The result is
  the value the promise resolves to, or the error it is rejected with, and the trace.
\<close>

definition handler ::
  "swap_env \<Rightarrow> jsval \<Rightarrow> jsval \<Rightarrow> bool \<Rightarrow> (error + bool) \<times> swap_event list" where
  "handler env msg state has =
     (case (if \<not> truthy state then (composeState env msg, [ComposeState])
            else (updateRecentMessageState env state, [UpdateRecentMessageState])) of
        (Inl e, tr0) \<Rightarrow> (Inl e, tr0)
      | (Inr state', tr0) \<Rightarrow>
          (let tr1 = tr0 @ [GenerateObject]
           in case generateObject env (composeContext env state') of
                Inl e \<Rightarrow> (Inl e, tr1)
              | Inr content \<Rightarrow>
                  (case isSwapContent content of
                     Inl e \<Rightarrow> (Inl e, tr1)
                   | Inr valid \<Rightarrow>
                       if \<not> valid then
                         (Inr False,
                          tr1 @ callback has ''Unable to process swap request. Invalid content provided.'')
                       else
                         (let fromTokenAddress = field content ''fromTokenAddress'';
                              toTokenAddress = field content ''toTokenAddress'';
                              amount = field content ''amount'';
                              tr2 = tr1 @ [GetQuote fromTokenAddress toTokenAddress amount]
                          in case getQuote env fromTokenAddress toTokenAddress amount of
                               Inl e \<Rightarrow> (Inl e, tr2)
                             | Inr quote \<Rightarrow>
                                 if fromTokenAddress = JStr NATIVE then something_went_wrong has tr2
                                 else if toTokenAddress = JStr NATIVE then something_went_wrong has tr2
                                 else swap_tokens env has fromTokenAddress amount quote tr2))))"

text \<open>The calls recorded in a trace, as opposed to the reports to the callback.\<close>

fun is_call :: "swap_event \<Rightarrow> bool" where
  "is_call (Callback txt) = False"
| "is_call e = True"

section \<open>Properties of the cache\<close>

lemma emit_simps:
  "clock (emit ev w) = clock w"
  "cacheManager (emit ev w) = cacheManager w"
  "requests (emit ev w) = requests w"
  "trace (emit ev w) = trace w @ [ev]"
  by (simp_all add: emit_def)

lemma NodeCache_get_expand:
  "NodeCache_get key this w =
     (case cache this key of
        None \<Rightarrow> JUndefined
      | Some (v, t) \<Rightarrow> if t \<noteq> 0 \<and> t < clock w then JUndefined else v,
      emit (MemGet key) w)"
  by (simp add: NodeCache_get_def Let_def split: option.splits)

lemma readFsCache_expand:
  "readFsCache this key w =
     (case cacheManager w (path_join (cacheKey this) key) of
        None \<Rightarrow> JNull
      | Some (v, expires) \<Rightarrow> if clock w < expires then v else JNull,
      emit (FsGet (path_join (cacheKey this) key)) w)"
  by (simp add: readFsCache_def cacheManager_get_def Let_def split: option.splits)

lemma writeToCache_expand:
  "writeToCache this key val w =
     (this\<lparr>cache := (cache this)(key \<mapsto>
              (val, if stdTTL this = 0 then 0
                    else if stdTTL this < 0 then - 1
                    else clock w + stdTTL this * 1000))\<rparr>,
      w\<lparr>cacheManager := (cacheManager w)(path_join (cacheKey this) key \<mapsto> (val, clock w + 300000)),
        trace := trace w @ [MemSet key, FsSet (path_join (cacheKey this) key)]\<rparr>)"
  by (simp add: writeToCache_def NodeCache_set_def writeFsCache_def cacheManager_set_def
      emit_def Let_def)

text \<open>
  C4. \<^verbatim>\<open>writeToCache\<close> writes the value to both tiers. The in-memory entry lives as the
  \<^verbatim>\<open>stdTTL\<close> of the cache says, which the constructor sets to its \<open>ttl\<close> argument and
  to 300 seconds when that is missing (or 0); \<^verbatim>\<open>BirdeyeProvider\<close> passes none. The
  file entry is written under \<open>path.join(cacheKey, key)\<close> with the expiry
  \<open>Date.now() + 5 * 60 * 1000\<close>, in which the TTL of the memory tier does not occur.
  The memory tier is written first.
\<close>

theorem writeToCache_write_through:
  "cache (fst (writeToCache this key val w)) key =
       Some (val, if stdTTL this = 0 then 0
                  else if stdTTL this < 0 then - 1
                  else clock w + stdTTL this * 1000)
   \<and> cacheManager (snd (writeToCache this key val w)) (path_join (cacheKey this) key) =
       Some (val, clock w + 5 * 60 * 1000)
   \<and> trace (snd (writeToCache this key val w)) =
       trace w @ [MemSet key, FsSet (path_join (cacheKey this) key)]
   \<and> stdTTL (new_BaseCachedProvider ck None) = 300
   \<and> stdTTL (new_BaseCachedProvider ck (Some ttl)) = (if ttl = 0 then 300 else ttl)
   \<and> stdTTL (new_BirdeyeProvider sm mr) = 300"
  apply (simp add: writeToCache_expand new_BaseCachedProvider_def new_BirdeyeProvider_def)
  apply (simp add: BaseCachedProvider.defs BirdeyeProvider.defs)
  done

text \<open>
  C9. Writing a value and reading the key back returns the value, at any later time at
  which the file entry has not expired (whatever the state of the memory entry; so in
  particular when neither tier has expired). A falsy value is not returned by the memory
  tier: the read goes on to the file tier, returns its value and leaves the memory tier
  as it is.
\<close>

theorem write_then_read_roundtrip:
  assumes "writeToCache this key v w = (this', w')"
    and "clock w \<le> t" and "t < clock w + 5 * 60 * 1000"
  shows "fst (readFromCache this' key (w'\<lparr>clock := t\<rparr>)) = v
       \<and> (\<not> truthy v \<longrightarrow>
            readFromCache this' key (w'\<lparr>clock := t\<rparr>) =
              (v, this', emit (FsGet (path_join (cacheKey this) key))
                           (emit (MemGet key) (w'\<lparr>clock := t\<rparr>))))"
  using assms
  by (auto simp: writeToCache_expand readFromCache_def NodeCache_get_expand readFsCache_expand
      emit_simps split: if_splits)

theorem write_then_read_roundtrip_witness:
  "fst (readFromCache
          (fst (writeToCache (new_BaseCachedProvider ''birdeye/data'' None) ''k'' (JNum 0)
                  \<lparr>cacheManager = Map.empty, clock = 1000, requests = 0, trace = []\<rparr>))
          ''k''
          ((snd (writeToCache (new_BaseCachedProvider ''birdeye/data'' None) ''k'' (JNum 0)
                  \<lparr>cacheManager = Map.empty, clock = 1000, requests = 0, trace = []\<rparr>))
             \<lparr>clock := 2000\<rparr>)) = JNum 0
   \<and> trace (snd (snd (readFromCache
          (fst (writeToCache (new_BaseCachedProvider ''birdeye/data'' None) ''k'' (JNum 0)
                  \<lparr>cacheManager = Map.empty, clock = 1000, requests = 0, trace = []\<rparr>))
          ''k''
          ((snd (writeToCache (new_BaseCachedProvider ''birdeye/data'' None) ''k'' (JNum 0)
                  \<lparr>cacheManager = Map.empty, clock = 1000, requests = 0, trace = []\<rparr>))
             \<lparr>clock := 2000\<rparr>))))
       = [MemSet ''k'', FsSet ''birdeye/data/k'', MemGet ''k'', FsGet ''birdeye/data/k'']"
  using write_then_read_roundtrip
    [of "new_BaseCachedProvider ''birdeye/data'' None" "''k''" "JNum 0"
        "\<lparr>cacheManager = Map.empty, clock = 1000, requests = 0, trace = []\<rparr>" _ _ 2000]
  apply (simp add: writeToCache_expand new_BaseCachedProvider_def emit_simps)
  apply (simp add: path_join_def path_normalize_def)
  done

text \<open>
  C2 as stated fails where the memory tier holds a falsy value: with a TTL of 600
  seconds, \<open>0\<close> is written at time 0 and read at time 400000, after the file entry
  (5 minutes) has expired. The memory tier still answers \<open>0\<close>, and the read returns
  \<open>null\<close>.
\<close>

theorem readFromCache_falsy_hit_counterexample:
  "fst (NodeCache_get ''k''
          (fst (writeToCache (new_BaseCachedProvider ''birdeye/data'' (Some 600)) ''k'' (JNum 0)
                  \<lparr>cacheManager = Map.empty, clock = 0, requests = 0, trace = []\<rparr>))
          ((snd (writeToCache (new_BaseCachedProvider ''birdeye/data'' (Some 600)) ''k'' (JNum 0)
                  \<lparr>cacheManager = Map.empty, clock = 0, requests = 0, trace = []\<rparr>))
             \<lparr>clock := 400000\<rparr>)) = JNum 0
   \<and> fst (readFromCache
          (fst (writeToCache (new_BaseCachedProvider ''birdeye/data'' (Some 600)) ''k'' (JNum 0)
                  \<lparr>cacheManager = Map.empty, clock = 0, requests = 0, trace = []\<rparr>))
          ''k''
          ((snd (writeToCache (new_BaseCachedProvider ''birdeye/data'' (Some 600)) ''k'' (JNum 0)
                  \<lparr>cacheManager = Map.empty, clock = 0, requests = 0, trace = []\<rparr>))
             \<lparr>clock := 400000\<rparr>)) = JNull"
  by (simp add: writeToCache_expand new_BaseCachedProvider_def readFromCache_def
      NodeCache_get_expand readFsCache_expand emit_simps)

text \<open>
  C2, as the code has it. The value of the memory tier is returned, and nothing else is
  read or changed, when it is truthy. Otherwise (no entry, an expired entry, or a falsy
  value) the file tier is read at \<open>path.join(cacheKey, key)\<close> and its result is
  returned: a truthy result is first stored in the memory tier, a falsy one (among them
  the \<open>null\<close> of a miss) leaves the memory tier as it is. When neither tier has an
  entry, the result is \<open>null\<close>.
\<close>

theorem readFromCache_read_path:
  "(truthy (fst (NodeCache_get key this w)) \<longrightarrow>
      readFromCache this key w = (fst (NodeCache_get key this w), this, emit (MemGet key) w))
   \<and> (\<not> truthy (fst (NodeCache_get key this w)) \<longrightarrow>
        fst (readFromCache this key w) = fst (readFsCache this key (emit (MemGet key) w))
      \<and> (truthy (fst (readFsCache this key (emit (MemGet key) w))) \<longrightarrow>
            snd (readFromCache this key w) =
              NodeCache_set key (fst (readFsCache this key (emit (MemGet key) w))) this
                (emit (FsGet (path_join (cacheKey this) key)) (emit (MemGet key) w)))
      \<and> (\<not> truthy (fst (readFsCache this key (emit (MemGet key) w))) \<longrightarrow>
            snd (readFromCache this key w) =
              (this, emit (FsGet (path_join (cacheKey this) key)) (emit (MemGet key) w))))
   \<and> (cache this key = None \<and> cacheManager w (path_join (cacheKey this) key) = None \<longrightarrow>
        fst (readFromCache this key w) = JNull)"
  by (auto simp: readFromCache_def NodeCache_get_expand readFsCache_expand emit_simps
      split: option.splits prod.splits)

theorem readFromCache_read_path_witness:
  "readFromCache \<lparr>cache = [''k'' \<mapsto> (JStr ''v'', 0)], stdTTL = 300, cacheKey = ''birdeye/data''\<rparr> ''k''
       \<lparr>cacheManager = Map.empty, clock = 7, requests = 0, trace = []\<rparr>
     = (JStr ''v'', \<lparr>cache = [''k'' \<mapsto> (JStr ''v'', 0)], stdTTL = 300, cacheKey = ''birdeye/data''\<rparr>,
        \<lparr>cacheManager = Map.empty, clock = 7, requests = 0, trace = [MemGet ''k'']\<rparr>)
   \<and> readFromCache \<lparr>cache = Map.empty, stdTTL = 300, cacheKey = ''birdeye/data''\<rparr> ''k''
       \<lparr>cacheManager = [''birdeye/data/k'' \<mapsto> (JStr ''v'', 9)], clock = 7, requests = 0, trace = []\<rparr>
     = (JStr ''v'', \<lparr>cache = [''k'' \<mapsto> (JStr ''v'', 300007)], stdTTL = 300, cacheKey = ''birdeye/data''\<rparr>,
        \<lparr>cacheManager = [''birdeye/data/k'' \<mapsto> (JStr ''v'', 9)], clock = 7, requests = 0,
          trace = [MemGet ''k'', FsGet ''birdeye/data/k'', MemSet ''k'']\<rparr>)
   \<and> fst (readFromCache \<lparr>cache = Map.empty, stdTTL = 300, cacheKey = ''birdeye/data''\<rparr> ''k''
       \<lparr>cacheManager = Map.empty, clock = 7, requests = 0, trace = []\<rparr>) = JNull"
proof -
  have pj: "path_join ''birdeye/data'' ''k'' = ''birdeye/data/k''"
    by (simp add: path_join_def path_normalize_def)
  note a = readFromCache_read_path
    [of "''k''" "\<lparr>cache = [''k'' \<mapsto> (JStr ''v'', 0)], stdTTL = 300, cacheKey = ''birdeye/data''\<rparr>"
        "\<lparr>cacheManager = Map.empty, clock = 7, requests = 0, trace = []\<rparr>"]
  note b = readFromCache_read_path
    [of "''k''" "\<lparr>cache = Map.empty, stdTTL = 300, cacheKey = ''birdeye/data''\<rparr>"
        "\<lparr>cacheManager = [''birdeye/data/k'' \<mapsto> (JStr ''v'', 9)], clock = 7, requests = 0, trace = []\<rparr>"]
  note c = readFromCache_read_path
    [of "''k''" "\<lparr>cache = Map.empty, stdTTL = 300, cacheKey = ''birdeye/data''\<rparr>"
        "\<lparr>cacheManager = Map.empty, clock = 7, requests = 0, trace = []\<rparr>"]
  have 1: "readFromCache \<lparr>cache = [''k'' \<mapsto> (JStr ''v'', 0)], stdTTL = 300, cacheKey = ''birdeye/data''\<rparr> ''k''
       \<lparr>cacheManager = Map.empty, clock = 7, requests = 0, trace = []\<rparr>
     = (JStr ''v'', \<lparr>cache = [''k'' \<mapsto> (JStr ''v'', 0)], stdTTL = 300, cacheKey = ''birdeye/data''\<rparr>,
        \<lparr>cacheManager = Map.empty, clock = 7, requests = 0, trace = [MemGet ''k'']\<rparr>)"
    using a by (simp add: NodeCache_get_expand emit_def)
  have 2: "readFromCache \<lparr>cache = Map.empty, stdTTL = 300, cacheKey = ''birdeye/data''\<rparr> ''k''
       \<lparr>cacheManager = [''birdeye/data/k'' \<mapsto> (JStr ''v'', 9)], clock = 7, requests = 0, trace = []\<rparr>
     = (JStr ''v'', \<lparr>cache = [''k'' \<mapsto> (JStr ''v'', 300007)], stdTTL = 300, cacheKey = ''birdeye/data''\<rparr>,
        \<lparr>cacheManager = [''birdeye/data/k'' \<mapsto> (JStr ''v'', 9)], clock = 7, requests = 0,
          trace = [MemGet ''k'', FsGet ''birdeye/data/k'', MemSet ''k'']\<rparr>)"
    using b by (simp add: NodeCache_get_expand readFsCache_expand NodeCache_set_def emit_def pj prod_eq_iff)
  have 3: "fst (readFromCache \<lparr>cache = Map.empty, stdTTL = 300, cacheKey = ''birdeye/data''\<rparr> ''k''
       \<lparr>cacheManager = Map.empty, clock = 7, requests = 0, trace = []\<rparr>) = JNull"
    using c by simp
  from 1 2 3 show ?thesis by blast
qed

section \<open>Properties of the exported provider\<close>

text \<open>
  C10. \<^verbatim>\<open>birdeyeProvider.get\<close> never rejects: its result is always a string. It is
  the "no wallet found" message when the setting is unset (or empty), the portfolio
  summary when the fetch succeeds, and the fixed fallback string when the fetch throws
  (or the host's \<^verbatim>\<open>getSetting\<close> does).
\<close>

theorem birdeyeProvider_get_never_rejects:
  "(\<exists>s. fst (birdeyeProvider_get runtime net w) = Inr s)
   \<and> (getSetting runtime ''BIRDEYE_WALLET_ADDR'' = Inr None
        \<or> getSetting runtime ''BIRDEYE_WALLET_ADDR'' = Inr (Some []) \<longrightarrow>
       birdeyeProvider_get runtime net w = (Inr ''Birdeye provider initiated with no wallet found'', w))
   \<and> (\<forall>walletAddr portfolio.
         getSetting runtime ''BIRDEYE_WALLET_ADDR'' = Inr (Some walletAddr) \<and> walletAddr \<noteq> [] \<and>
         fst (fetchWalletPortfolio (new_BirdeyeProvider None None) net walletAddr w) = Inr portfolio \<longrightarrow>
         fst (birdeyeProvider_get runtime net w) =
           Inr (''Birdeye wallet addr: '' @ walletAddr @ '', portfolio: '' @ js_toString portfolio))
   \<and> (\<forall>walletAddr e.
         getSetting runtime ''BIRDEYE_WALLET_ADDR'' = Inr (Some walletAddr) \<and> walletAddr \<noteq> [] \<and>
         fst (fetchWalletPortfolio (new_BirdeyeProvider None None) net walletAddr w) = Inl e \<longrightarrow>
         fst (birdeyeProvider_get runtime net w) =
           Inr ''Unable to fetch token information. Please try again later.'')
   \<and> (\<forall>e. getSetting runtime ''BIRDEYE_WALLET_ADDR'' = Inl e \<longrightarrow>
         fst (birdeyeProvider_get runtime net w) =
           Inr ''Unable to fetch token information. Please try again later.'')"
  by (auto simp: birdeyeProvider_get_def get_try_def Let_def split: sum.splits option.splits prod.splits)

lemma maxRetries_default: "maxRetries (new_BirdeyeProvider sm None) = 3"
  by (simp add: new_BirdeyeProvider_def BaseCachedProvider.defs BirdeyeProvider.defs DEFAULT_MAX_RETRIES_def)

lemma portfolio_url: "getUrlByType ''portfolio'' a = Inr (''https://public-api.birdeye.so/v1/wallet/token_list?wallet='' @ a)"
  by (simp add: getUrlByType_def ENDPOINT_MAP_def API_BASE_URL_def)

theorem birdeyeProvider_get_never_rejects_witness:
  "fst (birdeyeProvider_get \<lparr>getSetting = (\<lambda>k. Inr None)\<rparr> (\<lambda>url n. Rejected (Error ''down''))
         \<lparr>cacheManager = Map.empty, clock = 0, requests = 0, trace = []\<rparr>)
     = Inr ''Birdeye provider initiated with no wallet found''
   \<and> fst (birdeyeProvider_get \<lparr>getSetting = (\<lambda>k. Inr (Some ''W1''))\<rparr>
         (\<lambda>url n. Response True 200 (Inr ''[7]'') (Inr (JArr [JNum 7])))
         \<lparr>cacheManager = Map.empty, clock = 0, requests = 0, trace = []\<rparr>)
     = Inr ''Birdeye wallet addr: W1, portfolio: 7''
   \<and> fst (birdeyeProvider_get \<lparr>getSetting = (\<lambda>k. Inr (Some ''W1''))\<rparr>
         (\<lambda>url n. Rejected (Error ''down''))
         \<lparr>cacheManager = Map.empty, clock = 0, requests = 0, trace = []\<rparr>)
     = Inr ''Unable to fetch token information. Please try again later.''"
proof -
  let ?w = "\<lparr>cacheManager = Map.empty, clock = 0, requests = 0, trace = []\<rparr>"
  let ?ok = "\<lambda>(url::string) (n::nat). Response True 200 (Inr ''[7]'') (Inr (JArr [JNum 7]))"
  let ?down = "\<lambda>(url::string) (n::nat). Rejected (Error ''down'')"
  have ok: "fst (fetchWalletPortfolio (new_BirdeyeProvider None None) ?ok ''W1'' ?w) = Inr (JArr [JNum 7])"
    by (simp add: fetchWalletPortfolio_def portfolio_url fetchWithRetry_def maxRetries_default
        fetchWithRetry_loop.simps [of 3 _ _ 0] try_fetch_def fetch_def)
  have down: "fst (fetchWalletPortfolio (new_BirdeyeProvider None None) ?down ''W1'' ?w) = Inl (Error ''down'')"
    by (simp add: fetchWalletPortfolio_def portfolio_url fetchWithRetry_def maxRetries_default
        fetchWithRetry_loop.simps [of 3 _ _ 0] fetchWithRetry_loop.simps [of 3 _ _ 1]
        fetchWithRetry_loop.simps [of 3 _ _ 2] try_fetch_def fetch_def)
  have seven: "js_toString (JArr [JNum 7]) = ''7''"
    by code_simp
  note a = birdeyeProvider_get_never_rejects [of "\<lparr>getSetting = (\<lambda>k. Inr None)\<rparr>" ?down ?w]
  note b = birdeyeProvider_get_never_rejects [of "\<lparr>getSetting = (\<lambda>k. Inr (Some ''W1''))\<rparr>" ?ok ?w]
  note c = birdeyeProvider_get_never_rejects [of "\<lparr>getSetting = (\<lambda>k. Inr (Some ''W1''))\<rparr>" ?down ?w]
  have 1: "fst (birdeyeProvider_get \<lparr>getSetting = (\<lambda>k. Inr None)\<rparr> ?down ?w)
     = Inr ''Birdeye provider initiated with no wallet found''"
    using a by simp
  have 2: "fst (birdeyeProvider_get \<lparr>getSetting = (\<lambda>k. Inr (Some ''W1''))\<rparr> ?ok ?w)
     = Inr ''Birdeye wallet addr: W1, portfolio: 7''"
    using b ok seven by simp
  have 3: "fst (birdeyeProvider_get \<lparr>getSetting = (\<lambda>k. Inr (Some ''W1''))\<rparr> ?down ?w)
     = Inr ''Unable to fetch token information. Please try again later.''"
    using c down by simp
  from 1 2 3 show ?thesis by blast
qed

section \<open>Properties of the GOAT plugin\<close>

lemma validate_loop_filter:
  "validate_loop gs entries acc =
     acc @ map (\<lambda>(key, description). key @ '' ('' @ description @ '')'')
             (filter (\<lambda>(key, description). \<not> is_set (gs key)) entries)"
  by (induction entries arbitrary: acc) auto

lemma sublist_in_right: "sublist x zs \<Longrightarrow> sublist x (ys @ zs)"
  by (simp add: sublist_append)

lemma sublist_join_with:
  "x \<in> set xs \<Longrightarrow> sublist x (join_with sep xs)"
proof (induction sep xs rule: join_with.induct)
  case (1 sep)
  then show ?case by simp
next
  case (2 sep x')
  then show ?case by simp
next
  case (3 sep a y ys)
  show ?case
  proof (cases "x = a")
    case True
    then show ?thesis by (simp add: sublist_append_rightI)
  next
    case False
    with 3 have "sublist x (join_with sep (y # ys))" by simp
    then have "sublist x ((a @ sep) @ join_with sep (y # ys))"
      by (rule sublist_in_right)
    then show ?thesis by simp
  qed
qed

lemma init_solana_trace:
  "snd (init_solana env gs runtime) = []
   \<or> (\<exists>u. snd (init_solana env gs runtime) = [NewConnection u])
   \<or> (\<exists>u k. snd (init_solana env gs runtime) = [NewConnection u, NewPublicKey k])"
  by (simp add: init_solana_def Let_def split: sum.splits option.splits)

text \<open>
  C5. \<^verbatim>\<open>createGoatPlugin\<close> validates the settings first. When one of the three required
  settings is unset (or empty), it throws an error whose message lists every missing
  setting, in the order of \<^verbatim>\<open>REQUIRED_SETTINGS\<close>, and it has done nothing but log that
  message: no connection, no public key, no Twitter client. When all three are set,
  nothing is missing, and neither the error thrown (if any) nor any logged error is the
  one of the validation.
\<close>

theorem createGoatPlugin_validation:
  "(\<not> is_set (gs ''WALLET_PUBLIC_KEY'') \<or> \<not> is_set (gs ''DEXSCREENER_WATCHLIST_ID'')
      \<or> \<not> is_set (gs ''COINGECKO_API_KEY'') \<longrightarrow>
      (\<exists>msg. createGoatPlugin env gs runtime = (Inl (Error msg), [LogError msg])
         \<and> msg = ''Missing required settings: '' @
              join_with '', ''
                (map (\<lambda>(key, description). key @ '' ('' @ description @ '')'')
                   (filter (\<lambda>(key, description). \<not> is_set (gs key)) REQUIRED_SETTINGS))
         \<and> (\<forall>(key, description) \<in> set REQUIRED_SETTINGS.
               \<not> is_set (gs key) \<longrightarrow> sublist (key @ '' ('' @ description @ '')'') msg)))
   \<and> (is_set (gs ''WALLET_PUBLIC_KEY'') \<and> is_set (gs ''DEXSCREENER_WATCHLIST_ID'')
      \<and> is_set (gs ''COINGECKO_API_KEY'') \<longrightarrow>
      validate_loop gs REQUIRED_SETTINGS [] = []
      \<and> (\<forall>m. fst (createGoatPlugin env gs runtime) \<noteq> Inl (Error (''Missing required settings: '' @ m)))
      \<and> (\<forall>m. LogError (''Missing required settings: '' @ m) \<notin> set (snd (createGoatPlugin env gs runtime))))"
proof (intro conjI impI)
  assume miss: "\<not> is_set (gs ''WALLET_PUBLIC_KEY'') \<or> \<not> is_set (gs ''DEXSCREENER_WATCHLIST_ID'')
      \<or> \<not> is_set (gs ''COINGECKO_API_KEY'')"
  let ?fmt = "\<lambda>(key, description). key @ '' ('' @ description @ '')''"
  let ?missing = "map ?fmt (filter (\<lambda>(key, description). \<not> is_set (gs key)) REQUIRED_SETTINGS)"
  let ?msg = "''Missing required settings: '' @ join_with '', '' ?missing"
  have vl: "validate_loop gs REQUIRED_SETTINGS [] = ?missing"
    by (simp add: validate_loop_filter)
  from miss have ne: "?missing \<noteq> []"
    by (auto simp: REQUIRED_SETTINGS_def)
  have res: "createGoatPlugin env gs runtime = (Inl (Error ?msg), [LogError ?msg])"
    unfolding createGoatPlugin_def vl using ne by (simp add: Let_def)
  have names: "\<forall>(key, description) \<in> set REQUIRED_SETTINGS.
               \<not> is_set (gs key) \<longrightarrow> sublist (key @ '' ('' @ description @ '')'') ?msg"
  proof (clarify)
    fix key description
    assume "(key, description) \<in> set REQUIRED_SETTINGS" "\<not> is_set (gs key)"
    then have "?fmt (key, description) \<in> set ?missing" by force
    then have "sublist (?fmt (key, description)) (join_with '', '' ?missing)"
      by (rule sublist_join_with)
    then have "sublist (?fmt (key, description)) ?msg"
      by (rule sublist_in_right)
    then show "sublist (key @ '' ('' @ description @ '')'') ?msg" by simp
  qed
  from res names
  show "\<exists>msg. createGoatPlugin env gs runtime = (Inl (Error msg), [LogError msg])
         \<and> msg = ?msg
         \<and> (\<forall>(key, description) \<in> set REQUIRED_SETTINGS.
               \<not> is_set (gs key) \<longrightarrow> sublist (key @ '' ('' @ description @ '')'') msg)"
    by blast
next
  assume ok: "is_set (gs ''WALLET_PUBLIC_KEY'') \<and> is_set (gs ''DEXSCREENER_WATCHLIST_ID'')
      \<and> is_set (gs ''COINGECKO_API_KEY'')"
  then show vl: "validate_loop gs REQUIRED_SETTINGS [] = []"
    by (simp add: REQUIRED_SETTINGS_def)
  show "\<forall>m. fst (createGoatPlugin env gs runtime) \<noteq> Inl (Error (''Missing required settings: '' @ m))"
    unfolding createGoatPlugin_def vl
    by (auto simp: Let_def split: prod.splits sum.splits)
  show "\<forall>m. LogError (''Missing required settings: '' @ m) \<notin> set (snd (createGoatPlugin env gs runtime))"
    unfolding createGoatPlugin_def vl
    using init_solana_trace [of env gs runtime]
    by (auto simp: Let_def init_twitter_def split: prod.splits sum.splits if_splits)
qed


theorem createGoatPlugin_validation_witness:
  "createGoatPlugin
      \<lparr>Connection = (\<lambda>u. Inr ()), PublicKey = (\<lambda>k. Inr k), TwitterClientInterface_start = Inr (), getOnChainActions = Inr [],
       solana_evaluators = [], solana_providers = [], solana_actions = []\<rparr>
      (\<lambda>k. if k = ''WALLET_PUBLIC_KEY'' then Some ''abc'' else if k = ''COINGECKO_API_KEY'' then Some [] else None)
      None
    = (Inl (Error ''Missing required settings: DEXSCREENER_WATCHLIST_ID (DexScreener watchlist ID), COINGECKO_API_KEY (CoinGecko API key)''),
       [LogError ''Missing required settings: DEXSCREENER_WATCHLIST_ID (DexScreener watchlist ID), COINGECKO_API_KEY (CoinGecko API key)''])
   \<and> fst (createGoatPlugin
      \<lparr>Connection = (\<lambda>u. Inr ()), PublicKey = (\<lambda>k. Inr k), TwitterClientInterface_start = Inr (), getOnChainActions = Inr [],
       solana_evaluators = [], solana_providers = [], solana_actions = []\<rparr>
      (\<lambda>k. Some ''x'') None) \<noteq> Inl (Error ''Missing required settings: '')"
proof -
  let ?env = "\<lparr>Connection = (\<lambda>u. Inr ()), PublicKey = (\<lambda>k. Inr k), TwitterClientInterface_start = Inr (), getOnChainActions = Inr [],
       solana_evaluators = [], solana_providers = [], solana_actions = []\<rparr>"
  let ?gs = "\<lambda>k. if k = ''WALLET_PUBLIC_KEY'' then Some ''abc'' else if k = ''COINGECKO_API_KEY'' then Some [] else None"
  have 1: "createGoatPlugin ?env ?gs None
    = (Inl (Error ''Missing required settings: DEXSCREENER_WATCHLIST_ID (DexScreener watchlist ID), COINGECKO_API_KEY (CoinGecko API key)''),
       [LogError ''Missing required settings: DEXSCREENER_WATCHLIST_ID (DexScreener watchlist ID), COINGECKO_API_KEY (CoinGecko API key)''])"
    using createGoatPlugin_validation [of ?gs ?env None]
    by (simp add: REQUIRED_SETTINGS_def)
  have 2: "fst (createGoatPlugin ?env (\<lambda>k. Some ''x'') None) \<noteq> Inl (Error ''Missing required settings: '')"
    using createGoatPlugin_validation [of "\<lambda>k. Some ''x''" ?env None]
    by (simp del: fst_conv)
  from 1 2 show ?thesis by blast
qed

section \<open>Properties of the network calls\<close>

lemma try_fetch_expand:
  "try_fetch net url w =
     (outcome (net url (requests w)),
      w\<lparr>requests := Suc (requests w), trace := trace w @ [HttpFetch url]\<rparr>)"
  by (simp add: try_fetch_def fetch_def emit_def)

lemma waitFor_expand:
  "waitFor ms w = w\<lparr>clock := clock w + ms, trace := trace w @ [Wait ms]\<rparr>"
  by (simp add: waitFor_def emit_def)

lemma butlast_concat_replicate_Suc:
  "0 < n \<Longrightarrow> xs \<noteq> [] \<Longrightarrow>
   butlast (concat (replicate (Suc n) xs)) = xs @ butlast (concat (replicate n xs))"
  by (cases n) (simp_all add: butlast_append)

lemma fetchWithRetry_loop_spec:
  "fetchWithRetry_loop m net url a w = (r, w') \<Longrightarrow>
   \<exists>n. requests w' = requests w + n
     \<and> int n \<le> max 0 (m - a)
     \<and> trace w' = trace w @ butlast (concat (replicate n [HttpFetch url, Wait RETRY_DELAY_MS]))
     \<and> cacheManager w' = cacheManager w
     \<and> clock w' = clock w + RETRY_DELAY_MS * int (n - 1)
     \<and> (\<forall>i. i + 1 < n \<longrightarrow> isl (outcome (net url (requests w + i))))
     \<and> (case r of
           Inr d \<Rightarrow> (if n = 0 then d = JUndefined \<and> m \<le> a
                     else outcome (net url (requests w + n - 1)) = Inr d)
         | Inl e \<Rightarrow> int n = m - a \<and> 0 < n \<and> outcome (net url (requests w + n - 1)) = Inl e)"
proof (induction m net url a w arbitrary: r w' rule: fetchWithRetry_loop.induct)
  case (1 m net url a w)
  let ?w1 = "w\<lparr>requests := Suc (requests w), trace := trace w @ [HttpFetch url]\<rparr>"
  let ?o = "outcome (net url (requests w))"
  show ?case
  proof (cases "a < m")
    case False
    with "1.prems" have "r = Inr JUndefined" "w' = w"
      by (simp_all add: fetchWithRetry_loop.simps [of m net url a w])
    with False show ?thesis
      by (intro exI [of _ 0]) simp
  next
    case lt: True
    show ?thesis
    proof (cases ?o)
      case (Inr d)
      with lt "1.prems" have "r = Inr d" "w' = ?w1"
        by (simp_all add: fetchWithRetry_loop.simps [of m net url a w] try_fetch_expand)
      with lt Inr show ?thesis
        by (intro exI [of _ 1]) simp
    next
      case (Inl e)
      show ?thesis
      proof (cases "a + 1 = m")
        case True
        with lt Inl "1.prems" have "r = Inl e" "w' = ?w1"
          by (simp_all add: fetchWithRetry_loop.simps [of m net url a w] try_fetch_expand)
        with lt Inl True show ?thesis
          by (intro exI [of _ 1]) simp
      next
        case False
        let ?w2 = "waitFor RETRY_DELAY_MS ?w1"
        from lt Inl False "1.prems"
        have rec: "fetchWithRetry_loop m net url (a + 1) ?w2 = (r, w')"
          by (simp add: fetchWithRetry_loop.simps [of m net url a w] try_fetch_expand)
        have tf: "try_fetch net url w = (Inl e, ?w1)"
          using Inl by (simp add: try_fetch_expand)
        from "1.IH" [OF lt tf [symmetric] refl False rec]
        obtain n where n:
          "requests w' = requests ?w2 + n"
          "int n \<le> max 0 (m - (a + 1))"
          "trace w' = trace ?w2 @ butlast (concat (replicate n [HttpFetch url, Wait RETRY_DELAY_MS]))"
          "cacheManager w' = cacheManager ?w2"
          "clock w' = clock ?w2 + RETRY_DELAY_MS * int (n - 1)"
          "\<forall>i. i + 1 < n \<longrightarrow> isl (outcome (net url (requests ?w2 + i)))"
          "case r of
             Inr d \<Rightarrow> (if n = 0 then d = JUndefined \<and> m \<le> a + 1
                       else outcome (net url (requests ?w2 + n - 1)) = Inr d)
           | Inl e \<Rightarrow> int n = m - (a + 1) \<and> 0 < n \<and> outcome (net url (requests ?w2 + n - 1)) = Inl e"
          by blast
        from lt False have lt2: "a + 1 < m" by simp
        with n(7) have npos: "0 < n"
          by (cases r) (auto split: if_splits)
        have rq: "requests ?w2 = Suc (requests w)" "trace ?w2 = trace w @ [HttpFetch url, Wait RETRY_DELAY_MS]"
          "cacheManager ?w2 = cacheManager w" "clock ?w2 = clock w + RETRY_DELAY_MS"
          by (simp_all add: waitFor_expand)
        have a1: "requests w' = requests w + Suc n" using n(1) rq by simp
        have a2: "int (Suc n) \<le> max 0 (m - a)" using n(2) lt2 by simp
        have a3: "trace w' = trace w @ butlast (concat (replicate (Suc n) [HttpFetch url, Wait RETRY_DELAY_MS]))"
          using n(3) rq npos by (simp add: butlast_concat_replicate_Suc del: replicate.simps)
        have a4: "cacheManager w' = cacheManager w" using n(4) rq by simp
        have a4': "clock w' = clock w + RETRY_DELAY_MS * int (Suc n - 1)"
          using n(5) rq npos by (simp add: algebra_simps of_nat_diff)
        have a5: "\<forall>i. i + 1 < Suc n \<longrightarrow> isl (outcome (net url (requests w + i)))"
        proof (intro allI impI)
          fix i assume i: "i + 1 < Suc n"
          show "isl (outcome (net url (requests w + i)))"
          proof (cases i)
            case 0
            with Inl show ?thesis by simp
          next
            case (Suc j)
            with i n(6) rq show ?thesis by simp
          qed
        qed
        have a6: "case r of
             Inr d \<Rightarrow> (if Suc n = 0 then d = JUndefined \<and> m \<le> a
                       else outcome (net url (requests w + Suc n - 1)) = Inr d)
           | Inl e \<Rightarrow> int (Suc n) = m - a \<and> 0 < Suc n \<and> outcome (net url (requests w + Suc n - 1)) = Inl e"
          using n(7) npos rq by (cases r) (auto split: if_splits)
        from a1 a2 a3 a4 a4' a5 a6 show ?thesis
          by (intro exI [of _ "Suc n"]) blast
      qed
    qed
  qed
qed



text \<open>
  C3. \<^verbatim>\<open>fetchWithRetry\<close> issues \<open>n\<close> requests to the URL, with \<open>n\<close> at most
  \<^verbatim>\<open>maxRetries\<close> (3 by default). What it does is exactly: a request, and after each
  request but the last a wait of 2000 ms, so the waits add up to \<open>2000 * (n - 1)\<close>;
  every request but the last has failed, and the result is the outcome of the last
  request. An error is thrown only by attempt number \<^verbatim>\<open>maxRetries\<close>. When
  \<^verbatim>\<open>maxRetries\<close> is positive and all \<^verbatim>\<open>maxRetries\<close> attempts fail, it makes them
  all and throws the error of the last one.
\<close>

theorem fetchWithRetry_retry_policy:
  assumes "fetchWithRetry this net url w = (r, w')"
  shows "(\<exists>n. requests w' = requests w + n
     \<and> n \<le> nat (maxRetries this)
     \<and> trace w' = trace w @ butlast (concat (replicate n [HttpFetch url, Wait 2000]))
     \<and> clock w' = clock w + 2000 * int (n - 1)
     \<and> (\<forall>i. i + 1 < n \<longrightarrow> isl (outcome (net url (requests w + i))))
     \<and> (0 < n \<longrightarrow> r = outcome (net url (requests w + n - 1)))
     \<and> (isl r \<longrightarrow> 0 < n \<and> n = nat (maxRetries this))
     \<and> (0 < maxRetries this \<and> (\<forall>i < nat (maxRetries this). isl (outcome (net url (requests w + i))))
          \<longrightarrow> n = nat (maxRetries this) \<and> isl r \<and> r = outcome (net url (requests w + n - 1))))
     \<and> maxRetries (new_BirdeyeProvider sm None) = 3"
proof -
  from assms obtain n where n:
    "requests w' = requests w + n"
    "int n \<le> max 0 (maxRetries this - 0)"
    "trace w' = trace w @ butlast (concat (replicate n [HttpFetch url, Wait RETRY_DELAY_MS]))"
    "clock w' = clock w + RETRY_DELAY_MS * int (n - 1)"
    "\<forall>i. i + 1 < n \<longrightarrow> isl (outcome (net url (requests w + i)))"
    "case r of
       Inr d \<Rightarrow> (if n = 0 then d = JUndefined \<and> maxRetries this \<le> 0
                 else outcome (net url (requests w + n - 1)) = Inr d)
     | Inl e \<Rightarrow> int n = maxRetries this - 0 \<and> 0 < n \<and> outcome (net url (requests w + n - 1)) = Inl e"
    unfolding fetchWithRetry_def
    by (drule_tac fetchWithRetry_loop_spec) blast
  have le: "n \<le> nat (maxRetries this)" using n(2) by simp
  have last: "n = nat (maxRetries this) \<and> isl r \<and> r = outcome (net url (requests w + n - 1))"
    if pos: "0 < maxRetries this"
      and fail: "\<forall>i < nat (maxRetries this). isl (outcome (net url (requests w + i)))"
  proof (cases r)
    case (Inl e)
    with n(6) show ?thesis by auto
  next
    case (Inr d)
    with n(6) pos have "0 < n" and o: "outcome (net url (requests w + n - 1)) = Inr d"
      by (auto split: if_splits)
    with le have "n - 1 < nat (maxRetries this)" by simp
    with fail have "isl (outcome (net url (requests w + (n - 1))))" by blast
    with o \<open>0 < n\<close> show ?thesis by simp
  qed
  have res: "0 < n \<longrightarrow> r = outcome (net url (requests w + n - 1))"
    using n(6) by (cases r) (auto split: if_splits)
  have thrown: "isl r \<longrightarrow> 0 < n \<and> n = nat (maxRetries this)"
    using n(6) by (cases r) auto
  have allfail: "0 < maxRetries this
        \<and> (\<forall>i < nat (maxRetries this). isl (outcome (net url (requests w + i))))
      \<longrightarrow> n = nat (maxRetries this) \<and> isl r \<and> r = outcome (net url (requests w + n - 1))"
    using last by blast
  from n(1) le n(3) n(4) n(5) res thrown allfail
  have "\<exists>n. requests w' = requests w + n
     \<and> n \<le> nat (maxRetries this)
     \<and> trace w' = trace w @ butlast (concat (replicate n [HttpFetch url, Wait 2000]))
     \<and> clock w' = clock w + 2000 * int (n - 1)
     \<and> (\<forall>i. i + 1 < n \<longrightarrow> isl (outcome (net url (requests w + i))))
     \<and> (0 < n \<longrightarrow> r = outcome (net url (requests w + n - 1)))
     \<and> (isl r \<longrightarrow> 0 < n \<and> n = nat (maxRetries this))
     \<and> (0 < maxRetries this \<and> (\<forall>i < nat (maxRetries this). isl (outcome (net url (requests w + i))))
          \<longrightarrow> n = nat (maxRetries this) \<and> isl r \<and> r = outcome (net url (requests w + n - 1)))"
    unfolding RETRY_DELAY_MS_def by (intro exI [of _ n] conjI) assumption+
  then show ?thesis
    by (simp only: maxRetries_default simp_thms)
qed

theorem fetchWithRetry_retry_policy_witness:
  "fst (fetchWithRetry (new_BirdeyeProvider None None)
          (\<lambda>url n. if n = 2 then Rejected (Error ''third'') else Response False 500 (Inr ''busy'') (Inr JNull))
          ''u'' \<lparr>cacheManager = Map.empty, clock = 0, requests = 0, trace = []\<rparr>)
     = Inl (Error ''third'')
   \<and> trace (snd (fetchWithRetry (new_BirdeyeProvider None None)
          (\<lambda>url n. if n = 2 then Rejected (Error ''third'') else Response False 500 (Inr ''busy'') (Inr JNull))
          ''u'' \<lparr>cacheManager = Map.empty, clock = 0, requests = 0, trace = []\<rparr>))
     = [HttpFetch ''u'', Wait 2000, HttpFetch ''u'', Wait 2000, HttpFetch ''u'']
   \<and> clock (snd (fetchWithRetry (new_BirdeyeProvider None None)
          (\<lambda>url n. if n = 2 then Rejected (Error ''third'') else Response False 500 (Inr ''busy'') (Inr JNull))
          ''u'' \<lparr>cacheManager = Map.empty, clock = 0, requests = 0, trace = []\<rparr>)) = 4000"
proof -
  let ?p = "new_BirdeyeProvider None None"
  let ?net = "\<lambda>(url::string) (n::nat).
     if n = 2 then Rejected (Error ''third'') else Response False 500 (Inr ''busy'') (Inr JNull)"
  let ?w = "\<lparr>cacheManager = Map.empty, clock = 0, requests = 0, trace = []\<rparr>"
  let ?r = "fst (fetchWithRetry ?p ?net ''u'' ?w)"
  let ?w' = "snd (fetchWithRetry ?p ?net ''u'' ?w)"
  have eq: "fetchWithRetry ?p ?net ''u'' ?w = (?r, ?w')" by simp
  have hyp: "0 < maxRetries ?p
      \<and> (\<forall>i < nat (maxRetries ?p). isl (outcome (?net ''u'' (requests ?w + i))))"
    by (simp add: maxRetries_default)
  note fetchWithRetry_retry_policy [OF eq, of None, THEN conjunct1]
  then obtain n where H: "requests ?w' = requests ?w + n
     \<and> n \<le> nat (maxRetries ?p)
     \<and> trace ?w' = trace ?w @ butlast (concat (replicate n [HttpFetch ''u'', Wait 2000]))
     \<and> clock ?w' = clock ?w + 2000 * int (n - 1)
     \<and> (\<forall>i. i + 1 < n \<longrightarrow> isl (outcome (?net ''u'' (requests ?w + i))))
     \<and> (0 < n \<longrightarrow> ?r = outcome (?net ''u'' (requests ?w + n - 1)))
     \<and> (isl ?r \<longrightarrow> 0 < n \<and> n = nat (maxRetries ?p))
     \<and> (0 < maxRetries ?p
          \<and> (\<forall>i < nat (maxRetries ?p). isl (outcome (?net ''u'' (requests ?w + i))))
          \<longrightarrow> n = nat (maxRetries ?p) \<and> isl ?r
            \<and> ?r = outcome (?net ''u'' (requests ?w + n - 1)))"
    ..
  note tr = H [THEN conjunct2, THEN conjunct2, THEN conjunct1]
  note cl = H [THEN conjunct2, THEN conjunct2, THEN conjunct2, THEN conjunct1]
  note af = H [THEN conjunct2, THEN conjunct2, THEN conjunct2, THEN conjunct2, THEN conjunct2,
      THEN conjunct2, THEN conjunct2]
  from af hyp have last: "n = nat (maxRetries ?p) \<and> isl ?r
      \<and> ?r = outcome (?net ''u'' (requests ?w + n - 1))"
    by (rule mp)
  then have n3: "n = 3" by (simp add: maxRetries_default)
  from last have r: "?r = Inl (Error ''third'')"
    unfolding n3 by simp
  from tr have t: "trace ?w' = [HttpFetch ''u'', Wait 2000, HttpFetch ''u'', Wait 2000, HttpFetch ''u'']"
    unfolding n3 by (simp add: eval_nat_numeral)
  from cl have c: "clock ?w' = 4000"
    unfolding n3 by simp
  from r t c show ?thesis by (intro conjI)
qed

text \<open>
  C1 as stated fails: a successful price fetch on an empty cache issues the HTTP request
  as its first and only operation (no cache is read before it), and the cache manager is
  as empty afterwards as before (the result is not written back).
\<close>

theorem fetchPriceByAddress_no_cache_counterexample:
  "fetchPriceByAddress (new_BirdeyeProvider None None)
      (\<lambda>url n. Response True 200 (Inr ''{}'') (Inr (JObj [])))
      ''A'' \<lparr>cacheManager = Map.empty, clock = 0, requests = 0, trace = []\<rparr>
   = (Inr (JObj []),
      \<lparr>cacheManager = Map.empty, clock = 0, requests = 1,
        trace = [HttpFetch ''https://public-api.birdeye.so/defi/price?address=A'']\<rparr>)"
  by (simp add: fetchPriceByAddress_def getUrlByType_def ENDPOINT_MAP_def API_BASE_URL_def
      fetchWithRetry_def maxRetries_default fetchWithRetry_loop.simps [of 3 _ _ 0]
      try_fetch_expand)

lemma fetchWithRetry_frame:
  "cacheManager (snd (fetchWithRetry this net url w)) = cacheManager w
   \<and> (\<exists>evs. trace (snd (fetchWithRetry this net url w)) = trace w @ evs
        \<and> set evs \<subseteq> {HttpFetch url, Wait RETRY_DELAY_MS})"
proof -
  obtain r w' where eq: "fetchWithRetry this net url w = (r, w')"
    by (cases "fetchWithRetry this net url w")
  then obtain n where
    "trace w' = trace w @ butlast (concat (replicate n [HttpFetch url, Wait RETRY_DELAY_MS]))"
    "cacheManager w' = cacheManager w"
    unfolding fetchWithRetry_def by (drule_tac fetchWithRetry_loop_spec) blast
  moreover have "set (butlast (concat (replicate n [HttpFetch url, Wait RETRY_DELAY_MS])))
      \<subseteq> {HttpFetch url, Wait RETRY_DELAY_MS}"
    by (auto dest!: in_set_butlastD split: if_splits)
  ultimately show ?thesis using eq by auto
qed

text \<open>
  C1, as the code has it. Each of the four fetch operations builds the URL of its data
  kind from the address and hands it to \<^verbatim>\<open>fetchWithRetry\<close>. That reads and writes
  neither cache tier: the cache manager is left as it was, the operations it adds to the
  trace are HTTP requests to the URL and waits of 2000 ms only, and the provider (with
  its in-memory cache) is not changed.
\<close>

theorem fetch_by_address_bypasses_cache:
  "fetchPriceByAddress this net address w =
      fetchWithRetry this net (''https://public-api.birdeye.so/defi/price?address='' @ address) w
   \<and> fetchTokenSecurityByAddress this net address w =
      fetchWithRetry this net (''https://public-api.birdeye.so/defi/token_security?address='' @ address) w
   \<and> fetchTokenTradeDataByAddress this net address w =
      fetchWithRetry this net
        (''https://public-api.birdeye.so/defi/v3/token/trade-data/single?address='' @ address) w
   \<and> fetchWalletPortfolio this net address w =
      fetchWithRetry this net (''https://public-api.birdeye.so/v1/wallet/token_list?wallet='' @ address) w
   \<and> cacheManager (snd (fetchWithRetry this net url w)) = cacheManager w
   \<and> (\<exists>evs. trace (snd (fetchWithRetry this net url w)) = trace w @ evs
        \<and> set evs \<subseteq> {HttpFetch url, Wait 2000})"
  using fetchWithRetry_frame [of this net url w]
  by (simp add: fetchPriceByAddress_def fetchTokenSecurityByAddress_def
      fetchTokenTradeDataByAddress_def fetchWalletPortfolio_def getUrlByType_def ENDPOINT_MAP_def
      API_BASE_URL_def RETRY_DELAY_MS_def)

section \<open>Properties of the swap action\<close>

text \<open>
  C6 as stated fails on the order of the calls: in a successful swap of two non-native
  tokens the quote is fetched first, before the approval, and the receipt is fetched
  twice, once for the approval and once for the swap.
\<close>

theorem handler_call_order_counterexample:
  "handler
     \<lparr>composeState = (\<lambda>m. Inr (JObj [])),
      updateRecentMessageState = (\<lambda>s. Inr s),
      composeContext = (\<lambda>s. ''context''),
      generateObject = (\<lambda>c. Inr (JObj [(''fromTokenAddress'', JStr ''0xA''),
                                         (''toTokenAddress'', JStr ''0xB''),
                                         (''recipient'', JNull),
                                         (''amount'', JStr ''5'')])),
      getQuote = (\<lambda>f t a. Inr (JStr ''quote'')),
      approve = (\<lambda>t s a. Inr (JStr ''tx1'')),
      getTxReceipt = (\<lambda>tx. Inr (JObj [(''status'', JStr ''success'')])),
      swap = (\<lambda>q. Inr (JStr ''tx2''))\<rparr>
     (JStr ''swap 5 A for B'') JUndefined True
   = (Inr True,
      [ComposeState, GenerateObject,
       GetQuote (JStr ''0xA'') (JStr ''0xB'') (JStr ''5''),
       Approve (JStr ''0xA'') ''0xC4729E56b831d74bBc18797e0e17A295fA77488c'' (JStr ''5''),
       Callback ''approving token...'',
       GetTxReceipt (JStr ''tx1''),
       Callback ''token approved, swapping...'',
       Swap (JStr ''quote''),
       GetTxReceipt (JStr ''tx2''),
       Callback ''swap successful''])"
  by (simp add: handler_def isSwapContent_def field_def swap_tokens_def callback_def
      yakRouterAddress_def NATIVE_def Let_def)

lemma filter_is_call_callback: "filter is_call (callback has txt) = []"
  by (simp add: callback_def)

lemma swap_tokens_prefix_explicit:
  "prefix (filter is_call (snd (swap_tokens env has f a q tr)))
      (filter is_call tr @
         [Approve f yakRouterAddress a, GetTxReceipt (projr (approve env f yakRouterAddress a)),
          Swap q, GetTxReceipt (projr (swap env q))])"
proof (cases "approve env f yakRouterAddress a")
  case (Inl e)
  then show ?thesis by (simp add: swap_tokens_def)
next
  case tx: (Inr tx)
  show ?thesis
  proof (cases "truthy tx")
    case False
    with tx show ?thesis
      by (simp add: swap_tokens_def something_went_wrong_def filter_is_call_callback)
  next
    case True
    show ?thesis
    proof (cases "getTxReceipt env tx")
      case (Inl e)
      with tx True show ?thesis
        by (simp add: swap_tokens_def filter_is_call_callback)
    next
      case rc: (Inr receipt)
      show ?thesis
      proof (cases "get_field receipt ''status''")
        case (Inl e)
        with tx True rc show ?thesis
          by (simp add: swap_tokens_def filter_is_call_callback)
      next
        case st: (Inr status)
        show ?thesis
        proof (cases "status = JStr ''success''")
          case False
          with tx True rc st show ?thesis
            by (simp add: swap_tokens_def filter_is_call_callback)
        next
          case ok: True
          from tx True rc st ok show ?thesis
            by (simp add: swap_tokens_def something_went_wrong_def filter_is_call_callback
                Let_def split: sum.splits)
        qed
      qed
    qed
  qed
qed

lemma swap_tokens_prefix:
  "\<exists>tx stx. prefix (filter is_call (snd (swap_tokens env has f a q tr)))
      (filter is_call tr @ [Approve f yakRouterAddress a, GetTxReceipt tx, Swap q, GetTxReceipt stx])"
  using swap_tokens_prefix_explicit by blast

lemma handler_prefix:
  "\<exists>s0 f t a q tx stx. (s0 = ComposeState \<or> s0 = UpdateRecentMessageState)
     \<and> prefix (filter is_call (snd (handler env msg state has)))
          [s0, GenerateObject, GetQuote f t a, Approve f yakRouterAddress a,
           GetTxReceipt tx, Swap q, GetTxReceipt stx]"
proof -
  have st: "\<And>f a q tr. \<exists>tx stx. prefix (filter is_call (snd (swap_tokens env has f a q tr)))
      (filter is_call tr @ [Approve f yakRouterAddress a, GetTxReceipt tx, Swap q, GetTxReceipt stx])"
    by (rule swap_tokens_prefix)
  show ?thesis
  proof (cases "truthy state")
    case True
    show ?thesis
      using st [of "field c ''fromTokenAddress''" "field c ''amount''" q
                   "[UpdateRecentMessageState, GenerateObject,
                     GetQuote (field c ''fromTokenAddress'') (field c ''toTokenAddress'') (field c ''amount'')]"
                for c q] True
      apply (simp add: handler_def something_went_wrong_def callback_def Let_def
          split: sum.splits)
      apply (intro conjI impI allI exI [of _ UpdateRecentMessageState])
      apply (auto)
      apply blast
      done
  next
    case False
    show ?thesis
      using st [of "field c ''fromTokenAddress''" "field c ''amount''" q
                   "[ComposeState, GenerateObject,
                     GetQuote (field c ''fromTokenAddress'') (field c ''toTokenAddress'') (field c ''amount'')]"
                for c q] False
      apply (simp add: handler_def something_went_wrong_def callback_def Let_def
          split: sum.splits)
      apply (intro conjI impI allI exI [of _ ComposeState])
      apply (auto)
      apply blast
      done
  qed
qed

lemma swap_tokens_Swap:
  "Swap q' \<in> set (snd (swap_tokens env has f a q tr)) \<Longrightarrow> Swap q' \<notin> set tr \<Longrightarrow>
   \<exists>tx receipt. approve env f yakRouterAddress a = Inr tx \<and> truthy tx
      \<and> getTxReceipt env tx = Inr receipt
      \<and> get_field receipt ''status'' = Inr (JStr ''success'')"
  by (auto simp: swap_tokens_def something_went_wrong_def callback_def Let_def
      split: sum.splits if_splits)

lemma handler_Swap:
  "Swap q \<in> set (snd (handler env msg state has)) \<Longrightarrow>
   \<exists>f a tx receipt. approve env f yakRouterAddress a = Inr tx \<and> truthy tx
      \<and> getTxReceipt env tx = Inr receipt
      \<and> get_field receipt ''status'' = Inr (JStr ''success'')"
  by (auto simp: handler_def something_went_wrong_def callback_def Let_def
      split: sum.splits if_splits dest!: swap_tokens_Swap)


lemma handler_success_path:
  assumes "(if \<not> truthy state then composeState env msg
            else updateRecentMessageState env state) = Inr st"
    and "generateObject env (composeContext env st) = Inr content"
    and "isSwapContent content = Inr True"
    and "field content ''fromTokenAddress'' \<noteq> JStr NATIVE"
    and "field content ''toTokenAddress'' \<noteq> JStr NATIVE"
    and "getQuote env (field content ''fromTokenAddress'') (field content ''toTokenAddress'')
           (field content ''amount'') = Inr quote"
    and "approve env (field content ''fromTokenAddress'') yakRouterAddress
           (field content ''amount'') = Inr tx"
    and "truthy tx"
    and "getTxReceipt env tx = Inr receipt"
    and "get_field receipt ''status'' = Inr (JStr ''success'')"
    and "swap env quote = Inr swapTx"
    and "truthy swapTx"
    and "getTxReceipt env swapTx = Inr receipt2"
    and "get_field receipt2 ''status'' = Inr status2"
  shows "fst (handler env msg state has) = Inr True
     \<and> filter is_call (snd (handler env msg state has)) =
         [if \<not> truthy state then ComposeState else UpdateRecentMessageState,
          GenerateObject,
          GetQuote (field content ''fromTokenAddress'') (field content ''toTokenAddress'')
            (field content ''amount''),
          Approve (field content ''fromTokenAddress'') yakRouterAddress (field content ''amount''),
          GetTxReceipt tx, Swap quote, GetTxReceipt swapTx]"
proof (cases "truthy state")
  case True
  with assms show ?thesis
    by (simp add: handler_def swap_tokens_def callback_def Let_def)
next
  case False
  with assms show ?thesis
    by (simp add: handler_def swap_tokens_def callback_def Let_def)
qed

text \<open>
  C6, as the code has it. In every run the calls of the handler are an initial part of
  the sequence: state update, \<^verbatim>\<open>generateObject\<close>, \<^verbatim>\<open>getQuote\<close>, \<^verbatim>\<open>approve\<close>,
  \<^verbatim>\<open>getTxReceipt\<close> of the approval, \<^verbatim>\<open>swap\<close>, \<^verbatim>\<open>getTxReceipt\<close> of the swap. The
  swap is called only when the approval returned a transaction whose receipt has the
  status \<open>success\<close>. When the content is valid, neither token is the native one and
  every call succeeds, the whole sequence is run and the handler returns \<open>true\<close>.
\<close>

theorem handler_call_order:
  "(\<exists>s0 f t a q tx stx. (s0 = ComposeState \<or> s0 = UpdateRecentMessageState)
      \<and> prefix (filter is_call (snd (handler env msg state has)))
           [s0, GenerateObject, GetQuote f t a, Approve f yakRouterAddress a,
            GetTxReceipt tx, Swap q, GetTxReceipt stx])
   \<and> (\<forall>q. Swap q \<in> set (snd (handler env msg state has)) \<longrightarrow>
         (\<exists>f a tx receipt. approve env f yakRouterAddress a = Inr tx \<and> truthy tx
            \<and> getTxReceipt env tx = Inr receipt
            \<and> get_field receipt ''status'' = Inr (JStr ''success'')))
   \<and> (\<forall>st content quote tx receipt swapTx receipt2 status2.
         (if \<not> truthy state then composeState env msg
          else updateRecentMessageState env state) = Inr st
       \<and> generateObject env (composeContext env st) = Inr content
       \<and> isSwapContent content = Inr True
       \<and> field content ''fromTokenAddress'' \<noteq> JStr NATIVE
       \<and> field content ''toTokenAddress'' \<noteq> JStr NATIVE
       \<and> getQuote env (field content ''fromTokenAddress'') (field content ''toTokenAddress'')
            (field content ''amount'') = Inr quote
       \<and> approve env (field content ''fromTokenAddress'') yakRouterAddress
            (field content ''amount'') = Inr tx
       \<and> truthy tx
       \<and> getTxReceipt env tx = Inr receipt
       \<and> get_field receipt ''status'' = Inr (JStr ''success'')
       \<and> swap env quote = Inr swapTx
       \<and> truthy swapTx
       \<and> getTxReceipt env swapTx = Inr receipt2
       \<and> get_field receipt2 ''status'' = Inr status2
       \<longrightarrow> fst (handler env msg state has) = Inr True
         \<and> filter is_call (snd (handler env msg state has)) =
             [if \<not> truthy state then ComposeState else UpdateRecentMessageState,
              GenerateObject,
              GetQuote (field content ''fromTokenAddress'') (field content ''toTokenAddress'')
                (field content ''amount''),
              Approve (field content ''fromTokenAddress'') yakRouterAddress (field content ''amount''),
              GetTxReceipt tx, Swap quote, GetTxReceipt swapTx])"
proof (intro conjI allI impI)
  show "\<exists>s0 f t a q tx stx. (s0 = ComposeState \<or> s0 = UpdateRecentMessageState)
      \<and> prefix (filter is_call (snd (handler env msg state has)))
           [s0, GenerateObject, GetQuote f t a, Approve f yakRouterAddress a,
            GetTxReceipt tx, Swap q, GetTxReceipt stx]"
    by (rule handler_prefix)
next
  fix q assume "Swap q \<in> set (snd (handler env msg state has))"
  then show "\<exists>f a tx receipt. approve env f yakRouterAddress a = Inr tx \<and> truthy tx
            \<and> getTxReceipt env tx = Inr receipt
            \<and> get_field receipt ''status'' = Inr (JStr ''success'')"
    by (rule handler_Swap)
next
  fix st content quote tx receipt swapTx receipt2 status2
  assume a: "(if \<not> truthy state then composeState env msg
          else updateRecentMessageState env state) = Inr st
       \<and> generateObject env (composeContext env st) = Inr content
       \<and> isSwapContent content = Inr True
       \<and> field content ''fromTokenAddress'' \<noteq> JStr NATIVE
       \<and> field content ''toTokenAddress'' \<noteq> JStr NATIVE
       \<and> getQuote env (field content ''fromTokenAddress'') (field content ''toTokenAddress'')
            (field content ''amount'') = Inr quote
       \<and> approve env (field content ''fromTokenAddress'') yakRouterAddress
            (field content ''amount'') = Inr tx
       \<and> truthy tx
       \<and> getTxReceipt env tx = Inr receipt
       \<and> get_field receipt ''status'' = Inr (JStr ''success'')
       \<and> swap env quote = Inr swapTx
       \<and> truthy swapTx
       \<and> getTxReceipt env swapTx = Inr receipt2
       \<and> get_field receipt2 ''status'' = Inr status2"
  have r: "fst (handler env msg state has) = Inr True
     \<and> filter is_call (snd (handler env msg state has)) =
         [if \<not> truthy state then ComposeState else UpdateRecentMessageState,
          GenerateObject,
          GetQuote (field content ''fromTokenAddress'') (field content ''toTokenAddress'')
            (field content ''amount''),
          Approve (field content ''fromTokenAddress'') yakRouterAddress (field content ''amount''),
          GetTxReceipt tx, Swap quote, GetTxReceipt swapTx]"
    using a by (intro handler_success_path [of state env msg st content quote tx receipt swapTx receipt2 status2]) simp_all
  from r show "fst (handler env msg state has) = Inr True" by blast
  from r show "filter is_call (snd (handler env msg state has)) =
         [if \<not> truthy state then ComposeState else UpdateRecentMessageState,
          GenerateObject,
          GetQuote (field content ''fromTokenAddress'') (field content ''toTokenAddress'')
            (field content ''amount''),
          Approve (field content ''fromTokenAddress'') yakRouterAddress (field content ''amount''),
          GetTxReceipt tx, Swap quote, GetTxReceipt swapTx]" by blast
qed

theorem handler_call_order_witness:
  "filter is_call (snd (handler
     \<lparr>composeState = (\<lambda>m. Inr (JObj [])),
      updateRecentMessageState = (\<lambda>s. Inr s),
      composeContext = (\<lambda>s. ''context''),
      generateObject = (\<lambda>c. Inr (JObj [(''fromTokenAddress'', JStr ''0xC''),
                                         (''toTokenAddress'', JStr ''0xD''),
                                         (''amount'', JNum 10)])),
      getQuote = (\<lambda>f t a. Inr (JStr ''q'')),
      approve = (\<lambda>t s a. Inr (JStr ''txA'')),
      getTxReceipt = (\<lambda>tx. Inr (JObj [(''status'', JStr ''success'')])),
      swap = (\<lambda>q. Inr (JStr ''txS''))\<rparr>
     (JStr ''sell 10 C for D'') (JObj []) False))
   = [UpdateRecentMessageState, GenerateObject,
      GetQuote (JStr ''0xC'') (JStr ''0xD'') (JNum 10),
      Approve (JStr ''0xC'') ''0xC4729E56b831d74bBc18797e0e17A295fA77488c'' (JNum 10),
      GetTxReceipt (JStr ''txA''), Swap (JStr ''q''), GetTxReceipt (JStr ''txS'')]"
proof -
  let ?content = "JObj [(''fromTokenAddress'', JStr ''0xC''), (''toTokenAddress'', JStr ''0xD''),
                        (''amount'', JNum 10)]"
  let ?env = "\<lparr>composeState = (\<lambda>m. Inr (JObj [])),
      updateRecentMessageState = (\<lambda>s. Inr s),
      composeContext = (\<lambda>s. ''context''),
      generateObject = (\<lambda>c. Inr ?content),
      getQuote = (\<lambda>f t a. Inr (JStr ''q'')),
      approve = (\<lambda>t s a. Inr (JStr ''txA'')),
      getTxReceipt = (\<lambda>tx. Inr (JObj [(''status'', JStr ''success'')])),
      swap = (\<lambda>q. Inr (JStr ''txS''))\<rparr>"
  from handler_call_order [of ?env "JStr ''sell 10 C for D''" "JObj []" False]
  have "\<forall>st content quote tx receipt swapTx receipt2 status2.
         (if \<not> truthy (JObj []) then composeState ?env (JStr ''sell 10 C for D'')
          else updateRecentMessageState ?env (JObj [])) = Inr st
       \<and> generateObject ?env (composeContext ?env st) = Inr content
       \<and> isSwapContent content = Inr True
       \<and> field content ''fromTokenAddress'' \<noteq> JStr NATIVE
       \<and> field content ''toTokenAddress'' \<noteq> JStr NATIVE
       \<and> getQuote ?env (field content ''fromTokenAddress'') (field content ''toTokenAddress'')
            (field content ''amount'') = Inr quote
       \<and> approve ?env (field content ''fromTokenAddress'') yakRouterAddress
            (field content ''amount'') = Inr tx
       \<and> truthy tx
       \<and> getTxReceipt ?env tx = Inr receipt
       \<and> get_field receipt ''status'' = Inr (JStr ''success'')
       \<and> swap ?env quote = Inr swapTx
       \<and> truthy swapTx
       \<and> getTxReceipt ?env swapTx = Inr receipt2
       \<and> get_field receipt2 ''status'' = Inr status2
       \<longrightarrow> fst (handler ?env (JStr ''sell 10 C for D'') (JObj []) False) = Inr True
         \<and> filter is_call (snd (handler ?env (JStr ''sell 10 C for D'') (JObj []) False)) =
             [if \<not> truthy (JObj []) then ComposeState else UpdateRecentMessageState,
              GenerateObject,
              GetQuote (field content ''fromTokenAddress'') (field content ''toTokenAddress'')
                (field content ''amount''),
              Approve (field content ''fromTokenAddress'') yakRouterAddress (field content ''amount''),
              GetTxReceipt tx, Swap quote, GetTxReceipt swapTx]"
    by blast
  from this [rule_format, of "JObj []" ?content "JStr ''q''" "JStr ''txA''"
      "JObj [(''status'', JStr ''success'')]" "JStr ''txS''" "JObj [(''status'', JStr ''success'')]"
      "JStr ''success''"]
  show ?thesis
    by (simp add: isSwapContent_def field_def NATIVE_def yakRouterAddress_def)
qed

section \<open>Properties of the cache key space\<close>

lemma split_on_nonempty: "split_on c xs \<noteq> []"
  by (induction xs) (auto split: list.splits)

lemma split_on_append:
  "split_on c (a @ c # b) = split_on c a @ split_on c b"
proof (induction a)
  case Nil
  show ?case by simp
next
  case (Cons x a)
  obtain y ys where y: "split_on c a = y # ys"
    using split_on_nonempty [of c a] by (cases "split_on c a") auto
  with Cons show ?case by simp
qed

lemma split_on_no_sep: "c \<notin> set x \<Longrightarrow> split_on c x = [x]"
  by (induction x) auto

lemma split_on_segments: "s \<in> set (split_on c p) \<Longrightarrow> c \<notin> set s"
proof (induction p arbitrary: s)
  case Nil
  then show ?case by simp
next
  case (Cons x p)
  obtain y ys where y: "split_on c p = y # ys"
    using split_on_nonempty [of c p] by (cases "split_on c p") auto
  show ?case
  proof (cases "x = c")
    case True
    with Cons show ?thesis by auto
  next
    case False
    with Cons.prems y have "s = x # y \<or> s \<in> set ys" by simp
    with Cons.IH y False show ?thesis by auto
  qed
qed

lemma split_on_join_with:
  "segs \<noteq> [] \<Longrightarrow> \<forall>s \<in> set segs. c \<notin> set s \<Longrightarrow> split_on c (join_with [c] segs) = segs"
proof (induction "[c]" segs rule: join_with.induct)
  case 1
  then show ?case by simp
next
  case (2 x)
  then show ?case by (simp add: split_on_no_sep)
next
  case (3 x y ys)
  then show ?case by (simp add: split_on_append split_on_no_sep)
qed

lemma normalizeString_no_dotdot:
  "''..'' \<notin> set ys \<Longrightarrow>
   normalizeString allow res ys = res @ filter (\<lambda>s. s \<noteq> [] \<and> s \<noteq> ''.'') ys"
  by (induction ys arbitrary: res) auto

lemma split_birdeye_data: "split_on CHR ''/'' ''birdeye/data'' = [''birdeye'', ''data'']"
  by simp

lemma path_join_namespace:
  assumes "''..'' \<notin> set (split_on CHR ''/'' key)"
  shows "prefix [''birdeye'', ''data''] (split_on CHR ''/'' (path_join ''birdeye/data'' key))"
proof (cases "key = []")
  case True
  then show ?thesis
    by (simp add: path_join_def path_normalize_def)
next
  case False
  let ?F = "filter (\<lambda>s. s \<noteq> [] \<and> s \<noteq> ''.'') (split_on CHR ''/'' key)"
  let ?segs = "[''birdeye'', ''data''] @ ?F"
  let ?p = "''birdeye/data'' @ CHR ''/'' # key"
  have sp: "split_on CHR ''/'' ?p = [''birdeye'', ''data''] @ split_on CHR ''/'' key"
    by (simp only: split_on_append split_birdeye_data)
  have ns: "normalizeString True [] (split_on CHR ''/'' ?p) = ?segs"
    unfolding sp using assms by (simp add: normalizeString_no_dotdot)
  have pj: "path_join ''birdeye/data'' key =
      join_with ''/'' ?segs @ (if last key = CHR ''/'' then ''/'' else [])"
    using False ns by (simp add: path_join_def path_normalize_def Let_def)
  have nosep: "\<forall>s \<in> set ?segs. CHR ''/'' \<notin> set s"
    by (auto dest: split_on_segments)
  have sj: "split_on CHR ''/'' (join_with ''/'' ?segs) = ?segs"
    using nosep by (intro split_on_join_with) simp_all
  show ?thesis
  proof (cases "last key = CHR ''/''")
    case True
    have "split_on CHR ''/'' (join_with ''/'' ?segs @ ''/'') = ?segs @ [[]]"
      using split_on_append [of "CHR ''/''" "join_with ''/'' ?segs" "[]"] sj by simp
    with True pj show ?thesis by simp
  next
    case False
    with pj sj show ?thesis by simp
  qed
qed

lemma cacheKey_Birdeye: "cacheKey (new_BirdeyeProvider sm mr) = ''birdeye/data''"
  by (simp add: new_BirdeyeProvider_def new_BaseCachedProvider_def BaseCachedProvider.defs
      BirdeyeProvider.defs)

text \<open>
  C7 as stated fails for a key with a \<open>..\<close> segment: \<open>path.join\<close> normalises the
  path, so the key \<open>../x\<close> is read and written at \<open>birdeye/x\<close>, outside
  \<open>birdeye/data\<close>.
\<close>

theorem fs_cache_namespace_counterexample:
  "trace (snd (readFsCache (new_BirdeyeProvider None None) ''../x''
                 \<lparr>cacheManager = Map.empty, clock = 0, requests = 0, trace = []\<rparr>))
     = [FsGet ''birdeye/x'']
   \<and> cacheManager (writeFsCache (new_BirdeyeProvider None None) ''../x'' (JNum 1)
                 \<lparr>cacheManager = Map.empty, clock = 0, requests = 0, trace = []\<rparr>) ''birdeye/x''
     = Some (JNum 1, 300000)
   \<and> \<not> prefix ''birdeye/data'' ''birdeye/x''"
  by (simp add: readFsCache_expand writeFsCache_def cacheManager_set_def emit_def cacheKey_Birdeye
      path_join_def path_normalize_def)

text \<open>
  C7, as the code has it. \<^verbatim>\<open>readFsCache\<close> reads, and \<^verbatim>\<open>writeFsCache\<close> writes, the one
  entry at \<open>path.join(cacheKey, key)\<close> and no other; the \<open>cacheKey\<close> of a
  \<^verbatim>\<open>BirdeyeProvider\<close> is \<open>birdeye/data\<close>. For a key none of whose segments is
  \<open>..\<close>, that path lies under \<open>birdeye/data\<close>: its first two segments are
  \<open>birdeye\<close> and \<open>data\<close>.
\<close>

theorem fs_cache_access_scoped:
  "readFsCache this key w =
      (case cacheManager w (path_join (cacheKey this) key) of
         None \<Rightarrow> JNull
       | Some (v, expires) \<Rightarrow> if clock w < expires then v else JNull,
       emit (FsGet (path_join (cacheKey this) key)) w)
   \<and> trace (writeFsCache this key data w) = trace w @ [FsSet (path_join (cacheKey this) key)]
   \<and> cacheManager (writeFsCache this key data w) =
       (cacheManager w)(path_join (cacheKey this) key \<mapsto> (data, clock w + 5 * 60 * 1000))
   \<and> cacheKey (new_BirdeyeProvider sm mr) = ''birdeye/data''
   \<and> (''..'' \<notin> set (split_on CHR ''/'' key) \<longrightarrow>
        prefix [''birdeye'', ''data'']
          (split_on CHR ''/'' (path_join (cacheKey (new_BirdeyeProvider sm mr)) key)))"
  by (simp add: readFsCache_expand writeFsCache_def cacheManager_set_def emit_def cacheKey_Birdeye
      path_join_namespace)

theorem fs_cache_access_scoped_witness:
  "''..'' \<notin> set (split_on CHR ''/'' ''price/So111'')
   \<and> path_join (cacheKey (new_BirdeyeProvider None None)) ''price/So111'' = ''birdeye/data/price/So111''
   \<and> prefix [''birdeye'', ''data'']
        (split_on CHR ''/'' (path_join (cacheKey (new_BirdeyeProvider None None)) ''price/So111''))"
proof -
  have h: "''..'' \<notin> set (split_on CHR ''/'' ''price/So111'')" by simp
  have p: "path_join (cacheKey (new_BirdeyeProvider None None)) ''price/So111'' = ''birdeye/data/price/So111''"
    by (simp add: cacheKey_Birdeye path_join_def path_normalize_def)
  from fs_cache_access_scoped [of "new_BirdeyeProvider None None" "''price/So111''"
      "\<lparr>cacheManager = Map.empty, clock = 0, requests = 0, trace = []\<rparr>" JNull None None] h
  have "prefix [''birdeye'', ''data'']
        (split_on CHR ''/'' (path_join (cacheKey (new_BirdeyeProvider None None)) ''price/So111''))"
    by blast
  with h p show ?thesis by blast
qed

section \<open>Properties of the XMTP bootstrap\<close>

text \<open>
  C8. The message handler sends a static reply: whatever the message and the user, it
  sends the one string \<open>Your AI response here\<close> through the client, once.
\<close>

theorem onMessage_static_reply:
  "filter (\<lambda>e. \<exists>r. e = Send r) (onMessage msg user) = [Send ''Your AI response here'']
   \<and> filter (\<lambda>e. \<exists>r. e = Send r) (onMessage msg user) =
       filter (\<lambda>e. \<exists>r. e = Send r) (onMessage msg' user')"
  by (simp add: onMessage_def)

end
